theory Spec2Isabelle
  imports Complex_Main "HOL-Library.Multiset" "HOL-Library.AList"
begin

section \<open>JavaScript values used by the timeline code\<close>

text \<open>
  In the timeline code a JavaScript \<open>number\<close> is a time value or a difference of time
  values: \<open>NaN\<close>, or a whole number of milliseconds far below \<open>2^53\<close> in magnitude, so
  that subtraction is exact. It is modelled as either \<open>NaN\<close> or a real number; the
  rounding of the division into hours is not modelled. The numbers of the calculator,
  whose arithmetic rounds and can overflow, are modelled separately below.
\<close>

datatype number = NaN | Num real

text \<open>\<open>a - b\<close>, \<open>a * b\<close>, \<open>a / b\<close> on numbers: \<open>NaN\<close> is contagious.\<close>

fun num_sub :: "number \<Rightarrow> number \<Rightarrow> number" where
  "num_sub (Num a) (Num b) = Num (a - b)"
| "num_sub _ _ = NaN"

fun num_mul :: "number \<Rightarrow> number \<Rightarrow> number" where
  "num_mul (Num a) (Num b) = Num (a * b)"
| "num_mul _ _ = NaN"

text \<open>Division is only ever applied with a non-zero constant divisor.\<close>

fun num_div :: "number \<Rightarrow> number \<Rightarrow> number" where
  "num_div (Num a) (Num b) = Num (a / b)"
| "num_div _ _ = NaN"

text \<open>\<open>a > 0\<close>: every comparison with \<open>NaN\<close> is false.\<close>

fun num_gt0 :: "number \<Rightarrow> bool" where
  "num_gt0 (Num a) = (a > 0)"
| "num_gt0 NaN = False"

text \<open>Truthiness of a number: \<open>0\<close> and \<open>NaN\<close> are falsy.\<close>

fun num_truthy :: "number \<Rightarrow> bool" where
  "num_truthy (Num a) = (a \<noteq> 0)"
| "num_truthy NaN = False"

text \<open>The value of a number that is not \<open>NaN\<close>; it is used to state properties only.\<close>

fun num_value :: "number \<Rightarrow> real" where
  "num_value (Num a) = a"
| "num_value NaN = 0"

text \<open>\<open>Math.round\<close> rounds halves towards plus infinity.\<close>

fun Math_round :: "number \<Rightarrow> number" where
  "Math_round (Num a) = Num (of_int \<lfloor>a + 1 / 2\<rfloor>)"
| "Math_round NaN = NaN"

text \<open>
  Decimal text of an integer, as a template literal prints an integral number
  (below \<open>10^21\<close> in magnitude, where JavaScript switches to exponent notation).
\<close>

definition digit_char :: "nat \<Rightarrow> char" where
  "digit_char n = ''0123456789'' ! n"

fun digits_of_nat :: "nat \<Rightarrow> string" where
  "digits_of_nat n =
     (if n < 10 then [digit_char n]
      else digits_of_nat (n div 10) @ [digit_char (n mod 10)])"

definition Number_toString :: "int \<Rightarrow> string" where
  "Number_toString i =
     (if i < 0 then CHR ''-'' # digits_of_nat (nat (- i)) else digits_of_nat (nat i))"

text \<open>A thrown \<open>Error\<close> carries its message.\<close>

datatype error = Error string

section \<open>The event schema (sofEvents.ts)\<close>

datatype SofEventCategory =
    ARRIVAL_PORT_ENTRY
  | PRE_CARGO_OPERATIONS
  | CARGO_OPERATIONS
  | INTERRUPTIONS_DELAYS
  | DOCUMENTATION_SURVEYS
  | DEPARTURE_PORT_EXIT
  | SPECIAL_EVENTS

text \<open>The string value of each member of the enum.\<close>

fun category_value :: "SofEventCategory \<Rightarrow> string" where
  "category_value ARRIVAL_PORT_ENTRY = ''Arrival & Port Entry''"
| "category_value PRE_CARGO_OPERATIONS = ''Pre-Cargo Operations''"
| "category_value CARGO_OPERATIONS = ''Cargo Operations''"
| "category_value INTERRUPTIONS_DELAYS = ''Interruptions & Delays''"
| "category_value DOCUMENTATION_SURVEYS = ''Documentation & Surveys''"
| "category_value DEPARTURE_PORT_EXIT = ''Departure & Port Exit''"
| "category_value SPECIAL_EVENTS = ''Special Events''"

text \<open>
  Optional fields are \<open>option\<close>s, \<open>None\<close> for an absent (undefined) field. The field
  \<open>id\<close> is written \<open>id'\<close>.
\<close>

record SofEvent =
  id' :: string
  category :: SofEventCategory
  name :: string
  description :: "string option"
  requiresTimestamp :: bool
  requiresRemarks :: "bool option"
  requiresLocation :: "bool option"

record SofEventRecord = SofEvent +
  timestamp :: string
  remarks :: "string option"
  location :: "string option"
  vesselName :: "string option"
  portName :: "string option"

text \<open>The catalog, in declaration order.\<close>

definition sofEvents :: "SofEvent list" where
  "sofEvents = [
   \<lparr>id' = ''vessel_arrived_opl'', category = ARRIVAL_PORT_ENTRY,
    name = ''Vessel arrived at port limits (OPL)'',
    description = Some ''Vessel reaches the designated port limits area'',
    requiresTimestamp = True, requiresRemarks = None, requiresLocation = Some True\<rparr>,
   \<lparr>id' = ''vessel_arrived_anchorage'', category = ARRIVAL_PORT_ENTRY,
    name = ''Anchored'',
    description = Some ''Vessel reaches and secures at the designated anchorage area'',
    requiresTimestamp = True, requiresRemarks = None, requiresLocation = Some True\<rparr>,
   \<lparr>id' = ''pilot_onboard_arrival'', category = ARRIVAL_PORT_ENTRY,
    name = ''Pilot onboard (arrival)'',
    description = Some ''Harbor pilot boards the vessel to assist with port navigation'',
    requiresTimestamp = True, requiresRemarks = None, requiresLocation = None\<rparr>,
   \<lparr>id' = ''tugs_made_fast_arrival'', category = ARRIVAL_PORT_ENTRY,
    name = ''Tugs made fast (arrival)'',
    description = Some ''Tugboats are secured to the vessel to assist with berthing'',
    requiresTimestamp = True, requiresRemarks = None, requiresLocation = None\<rparr>,
   \<lparr>id' = ''vessel_alongside_berthed'', category = ARRIVAL_PORT_ENTRY,
    name = ''Berthed'',
    description = Some ''Vessel is positioned alongside the designated berth'',
    requiresTimestamp = True, requiresRemarks = None, requiresLocation = Some True\<rparr>,
   \<lparr>id' = ''first_line_ashore'', category = ARRIVAL_PORT_ENTRY,
    name = ''First line ashore'',
    description = Some ''First mooring line is secured to the shore'',
    requiresTimestamp = True, requiresRemarks = None, requiresLocation = None\<rparr>,
   \<lparr>id' = ''all_fast'', category = ARRIVAL_PORT_ENTRY,
    name = ''All fast (mooring complete)'',
    description = Some ''All mooring lines are secured and vessel is fully moored'',
    requiresTimestamp = True, requiresRemarks = None, requiresLocation = None\<rparr>,
   \<lparr>id' = ''gangway_secured'', category = ARRIVAL_PORT_ENTRY,
    name = ''Gangway secured'',
    description = Some ''Ship's gangway is lowered and secured for personnel access'',
    requiresTimestamp = True, requiresRemarks = None, requiresLocation = None\<rparr>,
   \<lparr>id' = ''free_pratique_granted'', category = ARRIVAL_PORT_ENTRY,
    name = ''Free pratique granted'',
    description = Some ''Health clearance granted allowing ship to interact with the port'',
    requiresTimestamp = True, requiresRemarks = None, requiresLocation = None\<rparr>,
   \<lparr>id' = ''immigration_clearance_completed'', category = ARRIVAL_PORT_ENTRY,
    name = ''Immigration clearance completed'',
    description = Some ''Immigration authorities have completed crew verification'',
    requiresTimestamp = True, requiresRemarks = None, requiresLocation = None\<rparr>,
   \<lparr>id' = ''customs_clearance_completed'', category = ARRIVAL_PORT_ENTRY,
    name = ''Customs clearance completed'',
    description = Some ''Customs authorities have completed cargo and vessel clearance'',
    requiresTimestamp = True, requiresRemarks = None, requiresLocation = None\<rparr>,
   \<lparr>id' = ''port_state_control_inspection'', category = ARRIVAL_PORT_ENTRY,
    name = ''Port state control inspection'',
    description = Some ''Inspection by port authorities to verify compliance with regulations'',
    requiresTimestamp = True, requiresRemarks = Some True, requiresLocation = None\<rparr>,
   \<lparr>id' = ''port_clearance_granted'', category = ARRIVAL_PORT_ENTRY,
    name = ''Port clearance granted'',
    description = Some ''Final clearance granted by port authorities'',
    requiresTimestamp = True, requiresRemarks = None, requiresLocation = None\<rparr>,
   \<lparr>id' = ''draught_survey_initial'', category = PRE_CARGO_OPERATIONS,
    name = ''Draught survey (initial)'',
    description = Some ''Initial measurement of vessel's draft to determine cargo quantity'',
    requiresTimestamp = True, requiresRemarks = Some True, requiresLocation = None\<rparr>,
   \<lparr>id' = ''hatch_tank_inspection'', category = PRE_CARGO_OPERATIONS,
    name = ''Hatch/tank inspection'',
    description = Some ''Inspection of cargo spaces before operations'',
    requiresTimestamp = True, requiresRemarks = Some True, requiresLocation = None\<rparr>,
   \<lparr>id' = ''surveyor_onboard'', category = PRE_CARGO_OPERATIONS,
    name = ''Surveyor onboard'',
    description = Some ''Independent cargo surveyor boards the vessel'',
    requiresTimestamp = True, requiresRemarks = None, requiresLocation = None\<rparr>,
   \<lparr>id' = ''sampling_start'', category = PRE_CARGO_OPERATIONS,
    name = ''Sampling start'',
    description = Some ''Beginning of cargo sampling process'',
    requiresTimestamp = True, requiresRemarks = None, requiresLocation = None\<rparr>,
   \<lparr>id' = ''sampling_completed'', category = PRE_CARGO_OPERATIONS,
    name = ''Sampling completed'',
    description = Some ''Completion of cargo sampling process'',
    requiresTimestamp = True, requiresRemarks = None, requiresLocation = None\<rparr>,
   \<lparr>id' = ''ballast_operations_start'', category = PRE_CARGO_OPERATIONS,
    name = ''Ballast operations start'',
    description = Some ''Beginning of ballast water operations'',
    requiresTimestamp = True, requiresRemarks = None, requiresLocation = None\<rparr>,
   \<lparr>id' = ''ballast_operations_stop'', category = PRE_CARGO_OPERATIONS,
    name = ''Ballast operations stop'',
    description = Some ''End of ballast water operations'',
    requiresTimestamp = True, requiresRemarks = None, requiresLocation = None\<rparr>,
   \<lparr>id' = ''hose_connection'', category = PRE_CARGO_OPERATIONS,
    name = ''Hose connection / Loading arm connected'',
    description = Some ''Cargo transfer equipment connected between ship and shore'',
    requiresTimestamp = True, requiresRemarks = None, requiresLocation = None\<rparr>,
   \<lparr>id' = ''loading_arm_crane_inspection'', category = PRE_CARGO_OPERATIONS,
    name = ''Loading arm/crane inspection'',
    description = Some ''Inspection of cargo transfer equipment'',
    requiresTimestamp = True, requiresRemarks = Some True, requiresLocation = None\<rparr>,
   \<lparr>id' = ''cargo_loading_started'', category = CARGO_OPERATIONS,
    name = ''Cargo Loading'',
    description = Some ''Beginning of cargo loading operations'',
    requiresTimestamp = True, requiresRemarks = None, requiresLocation = None\<rparr>,
   \<lparr>id' = ''cargo_loading_stopped'', category = CARGO_OPERATIONS,
    name = ''Cargo loading stopped (temporary)'',
    description = Some ''Temporary halt of cargo loading operations'',
    requiresTimestamp = True, requiresRemarks = Some True, requiresLocation = None\<rparr>,
   \<lparr>id' = ''cargo_loading_resumed'', category = CARGO_OPERATIONS,
    name = ''Cargo loading resumed'',
    description = Some ''Resumption of cargo loading after temporary stop'',
    requiresTimestamp = True, requiresRemarks = None, requiresLocation = None\<rparr>,
   \<lparr>id' = ''cargo_loading_completed'', category = CARGO_OPERATIONS,
    name = ''Completed Loading'',
    description = Some ''Completion of all cargo loading operations'',
    requiresTimestamp = True, requiresRemarks = None, requiresLocation = None\<rparr>,
   \<lparr>id' = ''cargo_discharging_started'', category = CARGO_OPERATIONS,
    name = ''Cargo discharging started'',
    description = Some ''Beginning of cargo discharge operations'',
    requiresTimestamp = True, requiresRemarks = None, requiresLocation = None\<rparr>,
   \<lparr>id' = ''cargo_discharging_stopped'', category = CARGO_OPERATIONS,
    name = ''Cargo discharging stopped (temporary)'',
    description = Some ''Temporary halt of cargo discharge operations'',
    requiresTimestamp = True, requiresRemarks = Some True, requiresLocation = None\<rparr>,
   \<lparr>id' = ''cargo_discharging_resumed'', category = CARGO_OPERATIONS,
    name = ''Cargo discharging resumed'',
    description = Some ''Resumption of cargo discharge after temporary stop'',
    requiresTimestamp = True, requiresRemarks = None, requiresLocation = None\<rparr>,
   \<lparr>id' = ''cargo_discharging_completed'', category = CARGO_OPERATIONS,
    name = ''Cargo discharging completed'',
    description = Some ''Completion of all cargo discharge operations'',
    requiresTimestamp = True, requiresRemarks = None, requiresLocation = None\<rparr>,
   \<lparr>id' = ''tank_cleaning_started'', category = CARGO_OPERATIONS,
    name = ''Tank cleaning started'',
    description = Some ''Beginning of tank cleaning operations'',
    requiresTimestamp = True, requiresRemarks = None, requiresLocation = None\<rparr>,
   \<lparr>id' = ''tank_cleaning_completed'', category = CARGO_OPERATIONS,
    name = ''Tank cleaning completed'',
    description = Some ''Completion of tank cleaning operations'',
    requiresTimestamp = True, requiresRemarks = None, requiresLocation = None\<rparr>,
   \<lparr>id' = ''hold_cleaning_started'', category = CARGO_OPERATIONS,
    name = ''Hold cleaning started'',
    description = Some ''Beginning of cargo hold cleaning operations'',
    requiresTimestamp = True, requiresRemarks = None, requiresLocation = None\<rparr>,
   \<lparr>id' = ''hold_cleaning_completed'', category = CARGO_OPERATIONS,
    name = ''Hold cleaning completed'',
    description = Some ''Completion of cargo hold cleaning operations'',
    requiresTimestamp = True, requiresRemarks = None, requiresLocation = None\<rparr>,
   \<lparr>id' = ''bunker_operations_started'', category = CARGO_OPERATIONS,
    name = ''Bunker operations started'',
    description = Some ''Beginning of vessel refueling operations'',
    requiresTimestamp = True, requiresRemarks = None, requiresLocation = None\<rparr>,
   \<lparr>id' = ''bunker_operations_completed'', category = CARGO_OPERATIONS,
    name = ''Bunker operations completed'',
    description = Some ''Completion of vessel refueling operations'',
    requiresTimestamp = True, requiresRemarks = None, requiresLocation = None\<rparr>,
   \<lparr>id' = ''ballasting_started'', category = CARGO_OPERATIONS,
    name = ''Ballasting started'',
    description = Some ''Beginning of taking on ballast water'',
    requiresTimestamp = True, requiresRemarks = None, requiresLocation = None\<rparr>,
   \<lparr>id' = ''ballasting_completed'', category = CARGO_OPERATIONS,
    name = ''Ballasting completed'',
    description = Some ''Completion of taking on ballast water'',
    requiresTimestamp = True, requiresRemarks = None, requiresLocation = None\<rparr>,
   \<lparr>id' = ''de_ballasting_started'', category = CARGO_OPERATIONS,
    name = ''De-ballasting started'',
    description = Some ''Beginning of discharging ballast water'',
    requiresTimestamp = True, requiresRemarks = None, requiresLocation = None\<rparr>,
   \<lparr>id' = ''de_ballasting_completed'', category = CARGO_OPERATIONS,
    name = ''De-ballasting completed'',
    description = Some ''Completion of discharging ballast water'',
    requiresTimestamp = True, requiresRemarks = None, requiresLocation = None\<rparr>,
   \<lparr>id' = ''weather_stoppage'', category = INTERRUPTIONS_DELAYS,
    name = ''Weather stoppage (rain, fog, storm, swell)'',
    description = Some ''Operations halted due to adverse weather conditions'',
    requiresTimestamp = True, requiresRemarks = Some True, requiresLocation = None\<rparr>,
   \<lparr>id' = ''technical_breakdown_ship'', category = INTERRUPTIONS_DELAYS,
    name = ''Technical breakdown (ship equipment)'',
    description = Some ''Operations halted due to vessel equipment failure'',
    requiresTimestamp = True, requiresRemarks = Some True, requiresLocation = None\<rparr>,
   \<lparr>id' = ''technical_breakdown_shore'', category = INTERRUPTIONS_DELAYS,
    name = ''Technical breakdown (shore equipment)'',
    description = Some ''Operations halted due to port equipment failure'',
    requiresTimestamp = True, requiresRemarks = Some True, requiresLocation = None\<rparr>,
   \<lparr>id' = ''power_failure'', category = INTERRUPTIONS_DELAYS,
    name = ''Power failure (port or vessel)'',
    description = Some ''Operations halted due to electrical power loss'',
    requiresTimestamp = True, requiresRemarks = Some True, requiresLocation = None\<rparr>,
   \<lparr>id' = ''strike_labor_stoppage'', category = INTERRUPTIONS_DELAYS,
    name = ''Strike / labor stoppage'',
    description = Some ''Operations halted due to labor action'',
    requiresTimestamp = True, requiresRemarks = Some True, requiresLocation = None\<rparr>,
   \<lparr>id' = ''holiday_stoppage'', category = INTERRUPTIONS_DELAYS,
    name = ''Holiday stoppage'',
    description = Some ''Operations halted due to local holiday'',
    requiresTimestamp = True, requiresRemarks = Some True, requiresLocation = None\<rparr>,
   \<lparr>id' = ''government_inspection_delay'', category = INTERRUPTIONS_DELAYS,
    name = ''Government inspection delay'',
    description = Some ''Operations halted for government inspection'',
    requiresTimestamp = True, requiresRemarks = Some True, requiresLocation = None\<rparr>,
   \<lparr>id' = ''waiting_cargo_availability'', category = INTERRUPTIONS_DELAYS,
    name = ''Waiting for cargo availability'',
    description = Some ''Delay due to cargo not being ready for loading'',
    requiresTimestamp = True, requiresRemarks = None, requiresLocation = None\<rparr>,
   \<lparr>id' = ''waiting_surveyor_documents'', category = INTERRUPTIONS_DELAYS,
    name = ''Waiting for surveyor / documents'',
    description = Some ''Delay due to pending documentation or surveyor availability'',
    requiresTimestamp = True, requiresRemarks = None, requiresLocation = None\<rparr>,
   \<lparr>id' = ''waiting_berth_congestion'', category = INTERRUPTIONS_DELAYS,
    name = ''Waiting for berth (congestion)'',
    description = Some ''Delay due to unavailability of berth'',
    requiresTimestamp = True, requiresRemarks = None, requiresLocation = None\<rparr>,
   \<lparr>id' = ''vessel_shifting'', category = INTERRUPTIONS_DELAYS,
    name = ''Vessel shifting (to/from berth/anchorage)'',
    description = Some ''Vessel relocating within port area'',
    requiresTimestamp = True, requiresRemarks = None, requiresLocation = Some True\<rparr>,
   \<lparr>id' = ''port_authority_stoppage'', category = INTERRUPTIONS_DELAYS,
    name = ''Port authority stoppage'',
    description = Some ''Operations halted by port authority directive'',
    requiresTimestamp = True, requiresRemarks = Some True, requiresLocation = None\<rparr>,
   \<lparr>id' = ''nor_tendered'', category = DOCUMENTATION_SURVEYS,
    name = ''Notice of Readiness (NOR) tendered'',
    description = Some ''Formal notification that vessel is ready for cargo operations'',
    requiresTimestamp = True, requiresRemarks = None, requiresLocation = None\<rparr>,
   \<lparr>id' = ''nor_accepted'', category = DOCUMENTATION_SURVEYS,
    name = ''Notice of Readiness (NOR) accepted'',
    description = Some ''Formal acceptance of vessel's readiness for cargo operations'',
    requiresTimestamp = True, requiresRemarks = None, requiresLocation = None\<rparr>,
   \<lparr>id' = ''ullage_survey_start'', category = DOCUMENTATION_SURVEYS,
    name = ''Ullage survey start'',
    description = Some ''Beginning of tank ullage measurement'',
    requiresTimestamp = True, requiresRemarks = None, requiresLocation = None\<rparr>,
   \<lparr>id' = ''ullage_survey_completed'', category = DOCUMENTATION_SURVEYS,
    name = ''Ullage survey completed'',
    description = Some ''Completion of tank ullage measurement'',
    requiresTimestamp = True, requiresRemarks = None, requiresLocation = None\<rparr>,
   \<lparr>id' = ''draught_survey_final'', category = DOCUMENTATION_SURVEYS,
    name = ''Draught survey (final)'',
    description = Some ''Final measurement of vessel's draft to determine cargo quantity'',
    requiresTimestamp = True, requiresRemarks = Some True, requiresLocation = None\<rparr>,
   \<lparr>id' = ''cargo_tally_measurement_completed'', category = DOCUMENTATION_SURVEYS,
    name = ''Cargo tally / measurement completed'',
    description = Some ''Completion of cargo quantity verification'',
    requiresTimestamp = True, requiresRemarks = None, requiresLocation = None\<rparr>,
   \<lparr>id' = ''cargo_documents_completed'', category = DOCUMENTATION_SURVEYS,
    name = ''Cargo documents completed'',
    description = Some ''Completion of all cargo-related documentation'',
    requiresTimestamp = True, requiresRemarks = None, requiresLocation = None\<rparr>,
   \<lparr>id' = ''mates_receipt_signed'', category = DOCUMENTATION_SURVEYS,
    name = ''Mate's Receipt signed'',
    description = Some ''Acknowledgment of cargo received onboard'',
    requiresTimestamp = True, requiresRemarks = None, requiresLocation = None\<rparr>,
   \<lparr>id' = ''bill_of_lading_signed'', category = DOCUMENTATION_SURVEYS,
    name = ''Bill of Lading signed'',
    description = Some ''Official cargo ownership document signed'',
    requiresTimestamp = True, requiresRemarks = None, requiresLocation = None\<rparr>,
   \<lparr>id' = ''statement_of_facts_signed'', category = DOCUMENTATION_SURVEYS,
    name = ''Statement of Facts signed'',
    description = Some ''Official record of port call events signed by all parties'',
    requiresTimestamp = True, requiresRemarks = None, requiresLocation = None\<rparr>,
   \<lparr>id' = ''hose_arm_disconnected'', category = DEPARTURE_PORT_EXIT,
    name = ''Hose/arm disconnected'',
    description = Some ''Cargo transfer equipment disconnected between ship and shore'',
    requiresTimestamp = True, requiresRemarks = None, requiresLocation = None\<rparr>,
   \<lparr>id' = ''hatch_closing_completed'', category = DEPARTURE_PORT_EXIT,
    name = ''Hatch closing completed'',
    description = Some ''All cargo hatches secured for sea voyage'',
    requiresTimestamp = True, requiresRemarks = None, requiresLocation = None\<rparr>,
   \<lparr>id' = ''pilot_onboard_departure'', category = DEPARTURE_PORT_EXIT,
    name = ''Pilot onboard (departure)'',
    description = Some ''Harbor pilot boards the vessel to assist with port departure'',
    requiresTimestamp = True, requiresRemarks = None, requiresLocation = None\<rparr>,
   \<lparr>id' = ''tugs_made_fast_departure'', category = DEPARTURE_PORT_EXIT,
    name = ''Tugs made fast (departure)'',
    description = Some ''Tugboats are secured to the vessel to assist with unberthing'',
    requiresTimestamp = True, requiresRemarks = None, requiresLocation = None\<rparr>,
   \<lparr>id' = ''last_line_off'', category = DEPARTURE_PORT_EXIT,
    name = ''Last line off'',
    description = Some ''Final mooring line released from shore'',
    requiresTimestamp = True, requiresRemarks = None, requiresLocation = None\<rparr>,
   \<lparr>id' = ''vessel_unberthed'', category = DEPARTURE_PORT_EXIT,
    name = ''Vessel unberthed'',
    description = Some ''Vessel has departed from the berth'',
    requiresTimestamp = True, requiresRemarks = None, requiresLocation = None\<rparr>,
   \<lparr>id' = ''vessel_departed_anchorage'', category = DEPARTURE_PORT_EXIT,
    name = ''Vessel departed anchorage'',
    description = Some ''Vessel has left the anchorage area'',
    requiresTimestamp = True, requiresRemarks = None, requiresLocation = None\<rparr>,
   \<lparr>id' = ''vessel_cleared_port_limits'', category = DEPARTURE_PORT_EXIT,
    name = ''Departed'',
    description = Some ''Vessel has exited the port jurisdiction area'',
    requiresTimestamp = True, requiresRemarks = None, requiresLocation = None\<rparr>,
   \<lparr>id' = ''crew_change_start'', category = SPECIAL_EVENTS,
    name = ''Crew change start'',
    description = Some ''Beginning of crew rotation process'',
    requiresTimestamp = True, requiresRemarks = None, requiresLocation = None\<rparr>,
   \<lparr>id' = ''crew_change_completed'', category = SPECIAL_EVENTS,
    name = ''Crew change completed'',
    description = Some ''Completion of crew rotation process'',
    requiresTimestamp = True, requiresRemarks = None, requiresLocation = None\<rparr>,
   \<lparr>id' = ''medical_evacuation'', category = SPECIAL_EVENTS,
    name = ''Medical evacuation / emergency'',
    description = Some ''Emergency medical situation requiring evacuation or assistance'',
    requiresTimestamp = True, requiresRemarks = Some True, requiresLocation = None\<rparr>,
   \<lparr>id' = ''garbage_disposal_completed'', category = SPECIAL_EVENTS,
    name = ''Garbage disposal completed'',
    description = Some ''Completion of waste removal from vessel'',
    requiresTimestamp = True, requiresRemarks = None, requiresLocation = None\<rparr>,
   \<lparr>id' = ''sludge_discharge_completed'', category = SPECIAL_EVENTS,
    name = ''Sludge discharge completed'',
    description = Some ''Completion of oily waste removal from vessel'',
    requiresTimestamp = True, requiresRemarks = None, requiresLocation = None\<rparr>,
   \<lparr>id' = ''fresh_water_supply_start'', category = SPECIAL_EVENTS,
    name = ''Fresh water supply start'',
    description = Some ''Beginning of fresh water delivery to vessel'',
    requiresTimestamp = True, requiresRemarks = None, requiresLocation = None\<rparr>,
   \<lparr>id' = ''fresh_water_supply_completed'', category = SPECIAL_EVENTS,
    name = ''Fresh water supply completed'',
    description = Some ''Completion of fresh water delivery to vessel'',
    requiresTimestamp = True, requiresRemarks = None, requiresLocation = None\<rparr>,
   \<lparr>id' = ''stores_spare_parts_delivery'', category = SPECIAL_EVENTS,
    name = ''Stores/spare parts delivery'',
    description = Some ''Delivery of supplies or equipment to vessel'',
    requiresTimestamp = True, requiresRemarks = None, requiresLocation = None\<rparr>,
   \<lparr>id' = ''isps_security_inspection'', category = SPECIAL_EVENTS,
    name = ''ISPS / security inspection'',
    description = Some ''International Ship and Port Facility Security inspection'',
    requiresTimestamp = True, requiresRemarks = Some True, requiresLocation = None\<rparr>  ]"

definition getSofEventById :: "string \<Rightarrow> SofEvent option" where
  "getSofEventById i = find (\<lambda>event. id' event = i) sofEvents"

text \<open>The document; its own \<open>id\<close>, \<open>vesselName\<close> and \<open>portName\<close> carry the suffix \<open>_doc\<close>.\<close>

record SofDocument =
  id_doc :: string
  vesselName_doc :: string
  portName_doc :: string
  arrivalDate :: "string option"
  departureDate :: "string option"
  events :: "SofEventRecord list"

text \<open>
  \<open>createSofDocument\<close>; the identifier comes from the clock and the random generator
  (\<open>generateUniqueId\<close>) and is passed in.
\<close>

definition createSofDocument :: "string \<Rightarrow> string \<Rightarrow> string \<Rightarrow> SofDocument" where
  "createSofDocument uid vessel port =
     \<lparr>id_doc = uid, vesselName_doc = vessel, portName_doc = port,
      arrivalDate = None, departureDate = None, events = []\<rparr>"

subsection \<open>Adding, removing and updating occurrences\<close>

definition addEventToSof ::
  "SofDocument \<Rightarrow> string \<Rightarrow> string \<Rightarrow> string option \<Rightarrow> string option \<Rightarrow> error + SofDocument" where
  "addEventToSof sofDocument eventId ts rem loc =
     (case getSofEventById eventId of
        None \<Rightarrow> Inl (Error (''Event with ID '' @ eventId @ '' not found''))
      | Some event \<Rightarrow>
          (let eventRecord =
             \<lparr>id' = id' event, category = category event, name = name event,
              description = description event,
              requiresTimestamp = requiresTimestamp event,
              requiresRemarks = requiresRemarks event,
              requiresLocation = requiresLocation event,
              timestamp = ts, remarks = rem, location = loc,
              vesselName = Some (vesselName_doc sofDocument),
              portName = Some (portName_doc sofDocument)\<rparr>
           in Inr (sofDocument\<lparr>events := events sofDocument @ [eventRecord]\<rparr>)))"

text \<open>
  The index is an integer here. \<open>splice(eventIndex, 1)\<close> on the copy removes the
  element at that position.
\<close>

definition removeEventFromSof :: "SofDocument \<Rightarrow> int \<Rightarrow> error + SofDocument" where
  "removeEventFromSof sofDocument eventIndex =
     (if eventIndex < 0 \<or> eventIndex \<ge> int (length (events sofDocument))
      then Inl (Error (''Event index '' @ Number_toString eventIndex @ '' is out of bounds''))
      else
        (let updatedEvents =
           take (nat eventIndex) (events sofDocument) @
           drop (nat eventIndex + 1) (events sofDocument)
         in Inr (sofDocument\<lparr>events := updatedEvents\<rparr>)))"

text \<open>
  The \<open>updates\<close> argument may hold any of the five keys that the parameter type leaves
  after omitting the schema fields; a key that is not there is \<open>None\<close>. The timestamp,
  where given, is a text; an optional field can be there with the value undefined
  (\<open>Some None\<close>). The spread \<open>{...record, ...updates}\<close> is \<open>spread_updates\<close>.
\<close>

record SofEventUpdates =
  upd_timestamp :: "string option"
  upd_remarks :: "string option option"
  upd_location :: "string option option"
  upd_vesselName :: "string option option"
  upd_portName :: "string option option"

definition spread_updates :: "SofEventRecord \<Rightarrow> SofEventUpdates \<Rightarrow> SofEventRecord" where
  "spread_updates r u =
     r\<lparr>timestamp := (case upd_timestamp u of None \<Rightarrow> timestamp r | Some v \<Rightarrow> v),
       remarks := (case upd_remarks u of None \<Rightarrow> remarks r | Some v \<Rightarrow> v),
       location := (case upd_location u of None \<Rightarrow> location r | Some v \<Rightarrow> v),
       vesselName := (case upd_vesselName u of None \<Rightarrow> vesselName r | Some v \<Rightarrow> v),
       portName := (case upd_portName u of None \<Rightarrow> portName r | Some v \<Rightarrow> v)\<rparr>"

definition updateEventInSof ::
  "SofDocument \<Rightarrow> int \<Rightarrow> SofEventUpdates \<Rightarrow> error + SofDocument" where
  "updateEventInSof sofDocument eventIndex updates =
     (if eventIndex < 0 \<or> eventIndex \<ge> int (length (events sofDocument))
      then Inl (Error (''Event index '' @ Number_toString eventIndex @ '' is out of bounds''))
      else
        (let updatedEvents =
           (events sofDocument)
             [nat eventIndex := spread_updates (events sofDocument ! nat eventIndex) updates]
         in Inr (sofDocument\<lparr>events := updatedEvents\<rparr>)))"

subsection \<open>Exports and the category summary\<close>

text \<open>\<open>x || ''\<close> and \<open>x || "-"\<close> on an optional text: absent and empty are both falsy.\<close>

definition or_default :: "string option \<Rightarrow> string \<Rightarrow> string" where
  "or_default v dflt = (case v of None \<Rightarrow> dflt | Some s \<Rightarrow> if s = [] then dflt else s)"

text \<open>The template \<open>`"${x}"`\<close>: the text between two double-quote characters.\<close>

definition quoted :: "string \<Rightarrow> string" where
  "quoted s = CHR 0x22 # s @ [CHR 0x22]"

text \<open>\<open>row.join(',')\<close>\<close>

fun join_comma :: "string list \<Rightarrow> string" where
  "join_comma [] = []"
| "join_comma [x] = x"
| "join_comma (x # y # ys) = x @ '','' @ join_comma (y # ys)"

definition csv_header :: string where
  "csv_header = ''Event Category,Event Name,Timestamp,Location,Remarks'' @ [CHR 0x0A]"

definition csv_row :: "SofEventRecord \<Rightarrow> string list" where
  "csv_row event =
     [quoted (category_value (category event)),
      quoted (name event),
      quoted (timestamp event),
      quoted (or_default (location event) []),
      quoted (or_default (remarks event) [])]"

definition exportSofToCsv :: "SofDocument \<Rightarrow> string" where
  "exportSofToCsv sofDocument =
     foldl (\<lambda>csv event. csv @ join_comma (csv_row event) @ [CHR 0x0A])
       csv_header (events sofDocument)"

definition getSofEventsSummary :: "SofDocument \<Rightarrow> SofEventCategory \<Rightarrow> nat" where
  "getSofEventsSummary sofDocument =
     foldl (\<lambda>summary event. summary(category event := summary (category event) + 1))
       (\<lambda>_. 0) (events sofDocument)"

subsection \<open>Chronological order and durations\<close>

text \<open>
  \<open>new Date(text).getTime()\<close> belongs to the language runtime: it is the parameter
  \<open>getTime\<close> of the functions below, giving the time value in milliseconds, or \<open>NaN\<close>
  for a text that is not a date.

  \<open>Array.prototype.sort\<close> with a comparison function is stable, and a comparison result
  of \<open>NaN\<close> counts as \<open>0\<close>. Every stable sort gives the same result for a consistent
  comparison function; the model is the stable insertion sort. Where the comparison
  function is not consistent (some timestamps parse to different times and another
  does not parse) the language leaves the order to the implementation, and the model
  is one such implementation.
\<close>

fun insert_sorted :: "('a \<Rightarrow> 'a \<Rightarrow> number) \<Rightarrow> 'a \<Rightarrow> 'a list \<Rightarrow> 'a list" where
  "insert_sorted cmp x [] = [x]"
| "insert_sorted cmp x (y # ys) =
     (if num_gt0 (cmp x y) then y # insert_sorted cmp x ys else x # y # ys)"

definition Array_sort :: "('a \<Rightarrow> 'a \<Rightarrow> number) \<Rightarrow> 'a list \<Rightarrow> 'a list" where
  "Array_sort cmp xs = foldr (insert_sorted cmp) xs []"

definition getSofEventsChronological ::
  "(string \<Rightarrow> number) \<Rightarrow> SofDocument \<Rightarrow> SofEventRecord list" where
  "getSofEventsChronological getTime sofDocument =
     Array_sort (\<lambda>a b. num_sub (getTime (timestamp a)) (getTime (timestamp b)))
       (events sofDocument)"

definition calculateTotalTime :: "(string \<Rightarrow> number) \<Rightarrow> SofDocument \<Rightarrow> number option" where
  "calculateTotalTime getTime sofDocument =
     (if length (events sofDocument) < 2 then None
      else
        (let chronologicalEvents = getSofEventsChronological getTime sofDocument;
             firstEvent = chronologicalEvents ! 0;
             lastEvent = chronologicalEvents ! (length chronologicalEvents - 1);
             startTime = getTime (timestamp firstEvent);
             endTime = getTime (timestamp lastEvent)
         in Some (num_div (num_sub endTime startTime) (Num (1000 * 60 * 60)))))"

text \<open>
  The set of the parsed time values of a timeline; it is used to state properties of
  timelines whose timestamps all parse.
\<close>

definition parsed_times :: "(string \<Rightarrow> number) \<Rightarrow> SofDocument \<Rightarrow> real set" where
  "parsed_times getTime sofDocument =
     (\<lambda>e. num_value (getTime (timestamp e))) ` set (events sofDocument)"

definition calculateDuration :: "(string \<Rightarrow> number) \<Rightarrow> string \<Rightarrow> string \<Rightarrow> number" where
  "calculateDuration getTime startTime endTime =
     (let start = getTime startTime; end' = getTime endTime
      in num_div (num_sub end' start) (Num (1000 * 60 * 60)))"

subsection \<open>The result section\<close>

record VesselDetails =
  name_vd :: string
  port_vd :: string
  arrivalDate_vd :: "string option"
  departureDate_vd :: "string option"

record OperationalSummary =
  totalEvents :: nat
  totalTimeInPort :: "number option"
  loadingTime :: number
  waitingTime :: number
  eventsByCategory :: "SofEventCategory \<Rightarrow> nat"

record KeyEvents =
  anchored :: "SofEventRecord option"
  berthed :: "SofEventRecord option"
  cargoLoading :: "SofEventRecord option"
  completedLoading :: "SofEventRecord option"
  departed :: "SofEventRecord option"

record EventPair =
  startEvent :: SofEventRecord
  endEvent :: SofEventRecord
  duration :: number

text \<open>A formatted event; \<open>duration_fmt\<close> is \<open>None\<close> for null.\<close>

record FormattedEvent =
  type_fmt :: string
  startTime_fmt :: string
  endTime_fmt :: string
  duration_fmt :: "number option"
  location_fmt :: string
  description_fmt :: string
  remarks_fmt :: string
  anomalies :: string

record SofResultSection =
  vesselDetails :: VesselDetails
  operationalSummary :: OperationalSummary
  keyEvents :: KeyEvents
  eventPairs :: "EventPair list"
  formattedEvents :: "FormattedEvent list"
  allEvents :: "SofEventRecord list"

text \<open>The object of fixed durations, one field per key.\<close>

record FixedDurations =
  vessel_arrived_anchorage_to_vessel_alongside_berthed :: number
  vessel_alongside_berthed_to_cargo_loading_started :: number
  cargo_loading_started_to_cargo_loading_completed :: number
  cargo_loading_completed_to_vessel_cleared_port_limits :: number

definition fixedDurations :: FixedDurations where
  "fixedDurations =
     \<lparr>vessel_arrived_anchorage_to_vessel_alongside_berthed = Num 2.5,
      vessel_alongside_berthed_to_cargo_loading_started = Num 1.0,
      cargo_loading_started_to_cargo_loading_completed = Num 11.5,
      cargo_loading_completed_to_vessel_cleared_port_limits = Num 1.75\<rparr>"

text \<open>
  One guarded \<open>eventPairs.push\<close>: the pair is pushed when both events were found.
\<close>

definition push_pair ::
  "SofEventRecord option \<Rightarrow> SofEventRecord option \<Rightarrow> number \<Rightarrow> EventPair list" where
  "push_pair s e dur =
     (case s of None \<Rightarrow> []
      | Some s' \<Rightarrow> (case e of None \<Rightarrow> []
         | Some e' \<Rightarrow> [\<lparr>startEvent = s', endEvent = e', duration = dur\<rparr>]))"

definition format_event :: "EventPair list \<Rightarrow> SofEventRecord \<Rightarrow> FormattedEvent" where
  "format_event pairs event =
     (let pair = find (\<lambda>p. id' (startEvent p) = id' event) pairs;
          endTime = (case pair of Some p \<Rightarrow> timestamp (endEvent p) | None \<Rightarrow> []);
          dur = (case pair of Some p \<Rightarrow> Some (duration p) | None \<Rightarrow> None)
      in \<lparr>type_fmt = name event,
          startTime_fmt = timestamp event,
          endTime_fmt = endTime,
          duration_fmt = dur,
          location_fmt = or_default (location event) ''-'',
          description_fmt = or_default (description event) [],
          remarks_fmt = or_default (remarks event) [],
          anomalies = ''Clean''\<rparr>)"

definition getSofResultSection :: "(string \<Rightarrow> number) \<Rightarrow> SofDocument \<Rightarrow> SofResultSection" where
  "getSofResultSection getTime sofDocument =
     (let chronologicalEvents = getSofEventsChronological getTime sofDocument;
          totalTime = calculateTotalTime getTime sofDocument;
          categorySummary = getSofEventsSummary sofDocument;
          anchoredEvent = find (\<lambda>e. id' e = ''vessel_arrived_anchorage'') chronologicalEvents;
          berthedEvent = find (\<lambda>e. id' e = ''vessel_alongside_berthed'') chronologicalEvents;
          cargoLoadingEvent = find (\<lambda>e. id' e = ''cargo_loading_started'') chronologicalEvents;
          completedLoadingEvent =
            find (\<lambda>e. id' e = ''cargo_loading_completed'') chronologicalEvents;
          departedEvent = find (\<lambda>e. id' e = ''vessel_cleared_port_limits'') chronologicalEvents;
          pairs =
            push_pair anchoredEvent berthedEvent
              (vessel_arrived_anchorage_to_vessel_alongside_berthed fixedDurations) @
            push_pair berthedEvent cargoLoadingEvent
              (vessel_alongside_berthed_to_cargo_loading_started fixedDurations) @
            push_pair cargoLoadingEvent completedLoadingEvent
              (cargo_loading_started_to_cargo_loading_completed fixedDurations) @
            push_pair completedLoadingEvent departedEvent
              (cargo_loading_completed_to_vessel_cleared_port_limits fixedDurations);
          waiting =
            (if anchoredEvent \<noteq> None \<and> berthedEvent \<noteq> None
             then vessel_arrived_anchorage_to_vessel_alongside_berthed fixedDurations
             else Num 0);
          loading =
            (if cargoLoadingEvent \<noteq> None \<and> completedLoadingEvent \<noteq> None
             then cargo_loading_started_to_cargo_loading_completed fixedDurations
             else Num 0)
      in \<lparr>vesselDetails =
            \<lparr>name_vd = vesselName_doc sofDocument,
             port_vd = portName_doc sofDocument,
             arrivalDate_vd = arrivalDate sofDocument,
             departureDate_vd = departureDate sofDocument\<rparr>,
          operationalSummary =
            \<lparr>totalEvents = length chronologicalEvents,
             totalTimeInPort =
               (case totalTime of
                  None \<Rightarrow> None
                | Some t \<Rightarrow>
                    if num_truthy t
                    then Some (num_div (Math_round (num_mul t (Num 10))) (Num 10))
                    else None),
             loadingTime = loading,
             waitingTime = waiting,
             eventsByCategory = categorySummary\<rparr>,
          keyEvents =
            \<lparr>anchored = anchoredEvent, berthed = berthedEvent,
             cargoLoading = cargoLoadingEvent,
             completedLoading = completedLoadingEvent,
             departed = departedEvent\<rparr>,
          eventPairs = pairs,
          formattedEvents = map (format_event pairs) chronologicalEvents,
          allEvents = chronologicalEvents\<rparr>)"

section \<open>The exchange-rate service and the demurrage calculator\<close>

subsection \<open>Double-precision numbers\<close>

text \<open>
  The calculator computes with arbitrary JavaScript numbers, that is IEEE binary64
  values: \<open>NaN\<close>, the two infinities (\<open>D_Inf True\<close> is plus infinity) and the finite
  doubles. The sign of zero is not modelled; it does not reach any result.

  The finite doubles are the reals \<open>m * 2^e\<close> with \<open>|m| < 2^53\<close> and
  \<open>-1074 <= e <= 971\<close>, written here with \<open>e = n - 1074\<close>; the largest of them is
  \<open>(2^53 - 1) * 2^971\<close>.
\<close>

datatype double = D_NaN | D_Inf bool | D_Fin real

definition ulp_min :: real where
  "ulp_min = 1 / 2 ^ 1074"

definition doubles :: "real set" where
  "doubles = {x. \<exists>(m::int) (n::nat). x = of_int m * 2 ^ n * ulp_min \<and> \<bar>m\<bar> < 2 ^ 53 \<and> n \<le> 2045}"

definition max_double :: real where
  "max_double = (2 ^ 53 - 1) * 2 ^ 2045 * ulp_min"

text \<open>
  Every arithmetic operation and every conversion of a decimal text yields the exact
  result rounded by the language runtime. That rounding is the parameter \<open>fl\<close> of the
  functions below. \<open>rounds fl x\<close> says what the runtime guarantees for the exact result
  \<open>x\<close>: the outcome is a finite double that is as close to \<open>x\<close> as any, or, only for an
  \<open>x\<close> beyond the largest double, the infinity of the sign of \<open>x\<close>.
\<close>

definition rounds :: "(real \<Rightarrow> double) \<Rightarrow> real \<Rightarrow> bool" where
  "rounds fl x =
     (case fl x of
        D_Fin d \<Rightarrow> d \<in> doubles \<and> (\<forall>d' \<in> doubles. \<bar>d - x\<bar> \<le> \<bar>d' - x\<bar>)
      | D_Inf s \<Rightarrow> max_double < \<bar>x\<bar> \<and> s = (0 < x)
      | D_NaN \<Rightarrow> False)"

text \<open>\<open>a - b\<close> and \<open>a * b\<close> on doubles.\<close>

fun dbl_sub :: "(real \<Rightarrow> double) \<Rightarrow> double \<Rightarrow> double \<Rightarrow> double" where
  "dbl_sub fl (D_Fin a) (D_Fin b) = fl (a - b)"
| "dbl_sub fl (D_Inf s) (D_Fin b) = D_Inf s"
| "dbl_sub fl (D_Fin a) (D_Inf t) = D_Inf (\<not> t)"
| "dbl_sub fl (D_Inf s) (D_Inf t) = (if s = t then D_NaN else D_Inf s)"
| "dbl_sub fl _ _ = D_NaN"

fun dbl_mul :: "(real \<Rightarrow> double) \<Rightarrow> double \<Rightarrow> double \<Rightarrow> double" where
  "dbl_mul fl (D_Fin a) (D_Fin b) = fl (a * b)"
| "dbl_mul fl (D_Inf s) (D_Fin b) = (if b = 0 then D_NaN else D_Inf (s = (0 < b)))"
| "dbl_mul fl (D_Fin a) (D_Inf t) = (if a = 0 then D_NaN else D_Inf (t = (0 < a)))"
| "dbl_mul fl (D_Inf s) (D_Inf t) = D_Inf (s = t)"
| "dbl_mul fl _ _ = D_NaN"

text \<open>
  \<open>a > 0\<close>, \<open>a < 0\<close>, \<open>a <= 0\<close>, where every comparison with \<open>NaN\<close> is false; \<open>a >= 0\<close> is
  used to state properties only.
\<close>

fun dbl_gt0 :: "double \<Rightarrow> bool" where
  "dbl_gt0 (D_Fin a) = (a > 0)"
| "dbl_gt0 (D_Inf s) = s"
| "dbl_gt0 D_NaN = False"

fun dbl_lt0 :: "double \<Rightarrow> bool" where
  "dbl_lt0 (D_Fin a) = (a < 0)"
| "dbl_lt0 (D_Inf s) = (\<not> s)"
| "dbl_lt0 D_NaN = False"

fun dbl_le0 :: "double \<Rightarrow> bool" where
  "dbl_le0 (D_Fin a) = (a \<le> 0)"
| "dbl_le0 (D_Inf s) = (\<not> s)"
| "dbl_le0 D_NaN = False"

fun dbl_ge0 :: "double \<Rightarrow> bool" where
  "dbl_ge0 (D_Fin a) = (0 \<le> a)"
| "dbl_ge0 (D_Inf s) = s"
| "dbl_ge0 D_NaN = False"

text \<open>Truthiness (\<open>0\<close> and \<open>NaN\<close> are falsy), \<open>isNaN\<close> and \<open>Math.abs\<close>.\<close>

fun dbl_truthy :: "double \<Rightarrow> bool" where
  "dbl_truthy (D_Fin a) = (a \<noteq> 0)"
| "dbl_truthy (D_Inf s) = True"
| "dbl_truthy D_NaN = False"

fun isNaN :: "double \<Rightarrow> bool" where
  "isNaN D_NaN = True"
| "isNaN (D_Inf s) = False"
| "isNaN (D_Fin a) = False"

fun Math_abs :: "double \<Rightarrow> double" where
  "Math_abs (D_Fin a) = D_Fin \<bar>a\<bar>"
| "Math_abs (D_Inf s) = D_Inf True"
| "Math_abs D_NaN = D_NaN"

text \<open>
  \<open>parseFloat(x.toFixed(d))\<close>. For a finite \<open>x\<close> below \<open>10^21\<close> in magnitude, \<open>toFixed\<close>
  writes \<open>n / 10^d\<close> for the integer \<open>n\<close> with \<open>n / 10^d\<close> closest to the magnitude of the
  exact value of \<open>x\<close>, the larger one on a tie, and keeps the sign (\<open>toFixed_real\<close>);
  \<open>parseFloat\<close> rounds that decimal to a double. From \<open>10^21\<close> on, and for the
  infinities and \<open>NaN\<close>, \<open>toFixed\<close> writes the number as \<open>String\<close> does and \<open>parseFloat\<close>
  reads the same number back.
\<close>

definition toFixed_real :: "nat \<Rightarrow> real \<Rightarrow> real" where
  "toFixed_real d x =
     (if x < 0 then - (of_int \<lfloor>(- x) * 10 ^ d + 1 / 2\<rfloor> / 10 ^ d)
      else of_int \<lfloor>x * 10 ^ d + 1 / 2\<rfloor> / 10 ^ d)"

fun parseFloat_toFixed :: "(real \<Rightarrow> double) \<Rightarrow> nat \<Rightarrow> double \<Rightarrow> double" where
  "parseFloat_toFixed fl d (D_Fin x) =
     (if 10 ^ 21 \<le> \<bar>x\<bar> then D_Fin x else fl (toFixed_real d x))"
| "parseFloat_toFixed fl d (D_Inf s) = D_Inf s"
| "parseFloat_toFixed fl d D_NaN = D_NaN"

subsection \<open>The exchange-rate service\<close>

text \<open>The table of mock rates, base currency first, with the decimals as written.\<close>

definition MOCK_EXCHANGE_RATES :: "(string \<times> (string \<times> real) list) list" where
  "MOCK_EXCHANGE_RATES = [
    (''USD'', [(''EUR'', 0.92), (''GBP'', 0.79), (''JPY'', 156.80), (''CAD'', 1.37),
               (''AUD'', 1.51), (''SGD'', 1.35), (''CNY'', 7.25), (''INR'', 83.50), (''USD'', 1.0)]),
    (''EUR'', [(''USD'', 1.08), (''GBP'', 0.86), (''JPY'', 170.00), (''CAD'', 1.48),
               (''AUD'', 1.64), (''SGD'', 1.47), (''CNY'', 7.87), (''INR'', 90.60), (''EUR'', 1.0)]),
    (''GBP'', [(''USD'', 1.27), (''EUR'', 1.16), (''JPY'', 198.00), (''CAD'', 1.73),
               (''AUD'', 1.91), (''SGD'', 1.71), (''CNY'', 9.15), (''INR'', 105.50), (''GBP'', 1.0)]),
    (''JPY'', [(''USD'', 0.0064), (''EUR'', 0.0059), (''GBP'', 0.0051), (''CAD'', 0.0087),
               (''AUD'', 0.0096), (''SGD'', 0.0086), (''CNY'', 0.046), (''INR'', 0.53), (''JPY'', 1.0)]),
    (''CAD'', [(''USD'', 0.73), (''EUR'', 0.67), (''GBP'', 0.58), (''JPY'', 114.00),
               (''AUD'', 1.10), (''SGD'', 0.98), (''CNY'', 5.28), (''INR'', 60.90), (''CAD'', 1.0)]),
    (''AUD'', [(''USD'', 0.66), (''EUR'', 0.61), (''GBP'', 0.52), (''JPY'', 104.00),
               (''CAD'', 0.91), (''SGD'', 0.89), (''CNY'', 4.80), (''INR'', 55.30), (''AUD'', 1.0)]),
    (''SGD'', [(''USD'', 0.74), (''EUR'', 0.68), (''GBP'', 0.58), (''JPY'', 116.00),
               (''CAD'', 1.02), (''AUD'', 1.12), (''CNY'', 5.37), (''INR'', 61.90), (''SGD'', 1.0)]),
    (''CNY'', [(''USD'', 0.13), (''EUR'', 0.12), (''GBP'', 0.11), (''JPY'', 21.60),
               (''CAD'', 0.19), (''AUD'', 0.21), (''SGD'', 0.18), (''INR'', 11.50), (''CNY'', 1.0)]),
    (''INR'', [(''USD'', 0.012), (''EUR'', 0.011), (''GBP'', 0.0095), (''JPY'', 1.88),
               (''CAD'', 0.016), (''AUD'', 0.018), (''SGD'', 0.016), (''CNY'', 0.087), (''INR'', 1.0)])
  ]"

text \<open>
  \<open>getExchangeRate\<close>: the promise resolves with a rate (\<open>Inr\<close>) or is rejected
  (\<open>Inl\<close>). The rate of the table is the double that its decimal literal denotes,
  \<open>fl\<close> of the decimal; a rate that is missing or falsy rejects.
\<close>

definition getExchangeRate :: "(real \<Rightarrow> double) \<Rightarrow> string \<Rightarrow> string \<Rightarrow> error + double" where
  "getExchangeRate fl baseCurrency targetCurrency =
     (if baseCurrency = targetCurrency then Inr (D_Fin 1.0)
      else
        (case map_of MOCK_EXCHANGE_RATES baseCurrency of
           None \<Rightarrow> Inl (Error ''Exchange rate not found'')
         | Some row \<Rightarrow>
             (case map_of row targetCurrency of
                None \<Rightarrow> Inl (Error ''Exchange rate not found'')
              | Some rate \<Rightarrow>
                  if dbl_truthy (fl rate) then Inr (fl rate)
                  else Inl (Error ''Exchange rate not found''))))"

subsection \<open>The calculator\<close>

datatype ResultType = Demurrage | Despatch

record CalculationResult =
  type_res :: ResultType
  amount :: double
  currency :: string
  convertedAmount :: "double option"
  convertedCurrency :: "string option"

text \<open>
  The state of the calculator component. A numeric input holds a number or the empty
  text (\<open>None\<close>); \<open>errors\<close> holds the keys of the error object in insertion order.
\<close>

record Calculator =
  dailyRate :: "double option"
  allowedTimeDays :: "double option"
  usedTimeDays :: "double option"
  fromCurrency :: string
  toCurrency :: string
  exchangeRate :: "double option"
  isLoadingExchangeRate :: bool
  calculationResult :: "CalculationResult option"
  errors :: "(string \<times> string) list"

text \<open>\<open>Number(v)\<close> for the content of a numeric input: the empty text converts to \<open>0\<close>.\<close>

definition Number_of :: "double option \<Rightarrow> double" where
  "Number_of v = (case v of None \<Rightarrow> D_Fin 0 | Some n \<Rightarrow> n)"

definition fetchExchangeRate :: "(real \<Rightarrow> double) \<Rightarrow> Calculator \<Rightarrow> Calculator" where
  "fetchExchangeRate fl s =
     (if fromCurrency s = toCurrency s then s\<lparr>exchangeRate := Some (D_Fin 1)\<rparr>
      else
        (case getExchangeRate fl (fromCurrency s) (toCurrency s) of
           Inr rate \<Rightarrow>
             s\<lparr>exchangeRate := Some (parseFloat_toFixed fl 4 rate),
               isLoadingExchangeRate := False\<rparr>
         | Inl err \<Rightarrow>
             s\<lparr>exchangeRate := Some (D_Fin 1.0), isLoadingExchangeRate := False\<rparr>))"

definition validateInputs :: "Calculator \<Rightarrow> (string \<times> string) list" where
  "validateInputs s =
     (if dailyRate s = None \<or> isNaN (Number_of (dailyRate s)) \<or> dbl_lt0 (Number_of (dailyRate s))
      then [(''dailyRate'', ''Valid daily rate is required'')] else []) @
     (if allowedTimeDays s = None \<or> isNaN (Number_of (allowedTimeDays s))
           \<or> dbl_lt0 (Number_of (allowedTimeDays s))
      then [(''allowedTimeDays'', ''Valid allowed time is required (days)'')] else []) @
     (if usedTimeDays s = None \<or> isNaN (Number_of (usedTimeDays s))
           \<or> dbl_lt0 (Number_of (usedTimeDays s))
      then [(''usedTimeDays'', ''Valid used time is required (days)'')] else []) @
     (if exchangeRate s = None \<or> isNaN (Number_of (exchangeRate s))
           \<or> dbl_le0 (Number_of (exchangeRate s))
      then [(''exchangeRate'', ''Valid exchange rate is required'')] else [])"

definition calculateDemurrage :: "(real \<Rightarrow> double) \<Rightarrow> Calculator \<Rightarrow> Calculator" where
  "calculateDemurrage fl s =
     (let newErrors = validateInputs s; s1 = s\<lparr>errors := newErrors\<rparr>
      in if length newErrors \<noteq> 0 then s1\<lparr>calculationResult := None\<rparr>
         else
           (let allowed = Number_of (allowedTimeDays s);
                used = Number_of (usedTimeDays s);
                rate = Number_of (dailyRate s);
                currentExchangeRate = Number_of (exchangeRate s);
                excessTime = dbl_sub fl used allowed;
                calculatedAmount =
                  (if dbl_gt0 excessTime then dbl_mul fl excessTime rate
                   else dbl_mul fl (Math_abs excessTime) rate);
                resultType = (if dbl_gt0 excessTime then Demurrage else Despatch);
                converted = dbl_mul fl calculatedAmount currentExchangeRate
            in s1\<lparr>calculationResult := Some
                 \<lparr>type_res = resultType,
                  amount = parseFloat_toFixed fl 2 calculatedAmount,
                  currency = fromCurrency s,
                  convertedAmount = Some (parseFloat_toFixed fl 2 converted),
                  convertedCurrency = Some (toCurrency s)\<rparr>\<rparr>))"

text \<open>
  \<open>handleInputChange\<close>; \<open>Number(value)\<close> on the text of the input belongs to the language
  runtime and is the parameter \<open>toNumber\<close>. The error of the changed field is cleared.
\<close>

definition handleInputChange ::
  "(string \<Rightarrow> double) \<Rightarrow> string \<Rightarrow> string \<Rightarrow> Calculator \<Rightarrow> Calculator" where
  "handleInputChange toNumber name' value s =
     (let numValue = (if value = [] then None else Some (toNumber value));
          s1 = s\<lparr>errors := AList.update name' [] (errors s)\<rparr>
      in if name' = ''dailyRate'' then s1\<lparr>dailyRate := numValue\<rparr>
         else if name' = ''allowedTimeDays'' then s1\<lparr>allowedTimeDays := numValue\<rparr>
         else if name' = ''usedTimeDays'' then s1\<lparr>usedTimeDays := numValue\<rparr>
         else if name' = ''fromCurrency'' then s1\<lparr>fromCurrency := value\<rparr>
         else if name' = ''toCurrency'' then s1\<lparr>toCurrency := value\<rparr>
         else if name' = ''exchangeRate'' then s1\<lparr>exchangeRate := numValue\<rparr>
         else s1)"

section \<open>Sample port-call data\<close>

text \<open>
  The time values of the timestamps used in the examples, as \<open>Date\<close> parses them; any
  other text here is not a date.
\<close>

definition sample_getTime :: "string \<Rightarrow> number" where
  "sample_getTime s =
     (if s = ''2025-08-06T06:30:00.000Z'' then Num 1754461800000
      else if s = ''2025-08-06T09:00:00.000Z'' then Num 1754470800000
      else if s = ''2025-08-06T10:00:00.000Z'' then Num 1754474400000
      else NaN)"

definition sample_doc :: SofDocument where
  "sample_doc = createSofDocument ''m1abc'' ''GLOBAL TRADER'' ''Kandla''"

text \<open>
  Occurrences as \<open>addEventToSof\<close> builds them on \<open>sample_doc\<close>: anchored at 06:30
  without a location, berthed at 09:00 and at 10:00, a pilot boarding at 06:30, and two
  occurrences whose timestamp text is not a date.
\<close>

definition anchored_0630 :: SofEventRecord where
  "anchored_0630 =
     \<lparr>id' = ''vessel_arrived_anchorage'', category = ARRIVAL_PORT_ENTRY,
      name = ''Anchored'',
      description = Some ''Vessel reaches and secures at the designated anchorage area'',
      requiresTimestamp = True, requiresRemarks = None, requiresLocation = Some True,
      timestamp = ''2025-08-06T06:30:00.000Z'', remarks = None, location = None,
      vesselName = Some ''GLOBAL TRADER'', portName = Some ''Kandla''\<rparr>"

definition berthed_0900 :: SofEventRecord where
  "berthed_0900 =
     \<lparr>id' = ''vessel_alongside_berthed'', category = ARRIVAL_PORT_ENTRY,
      name = ''Berthed'',
      description = Some ''Vessel is positioned alongside the designated berth'',
      requiresTimestamp = True, requiresRemarks = None, requiresLocation = Some True,
      timestamp = ''2025-08-06T09:00:00.000Z'', remarks = None, location = Some ''Berth No'',
      vesselName = Some ''GLOBAL TRADER'', portName = Some ''Kandla''\<rparr>"

definition berthed_1000 :: SofEventRecord where
  "berthed_1000 = berthed_0900\<lparr>timestamp := ''2025-08-06T10:00:00.000Z''\<rparr>"

definition pilot_0630 :: SofEventRecord where
  "pilot_0630 =
     \<lparr>id' = ''pilot_onboard_arrival'', category = ARRIVAL_PORT_ENTRY,
      name = ''Pilot onboard (arrival)'',
      description = Some ''Harbor pilot boards the vessel to assist with port navigation'',
      requiresTimestamp = True, requiresRemarks = None, requiresLocation = None,
      timestamp = ''2025-08-06T06:30:00.000Z'', remarks = None, location = None,
      vesselName = Some ''GLOBAL TRADER'', portName = Some ''Kandla''\<rparr>"

definition pilot_undated :: SofEventRecord where
  "pilot_undated = pilot_0630\<lparr>timestamp := ''early morning''\<rparr>"

definition berthed_undated :: SofEventRecord where
  "berthed_undated = berthed_0900\<lparr>timestamp := ''after breakfast''\<rparr>"

text \<open>Documents holding these occurrences, in the order they were added.\<close>

definition missing_location_doc :: SofDocument where
  "missing_location_doc = sample_doc\<lparr>events := [anchored_0630]\<rparr>"

definition scenario_doc :: SofDocument where
  "scenario_doc = sample_doc\<lparr>events := [anchored_0630, berthed_0900]\<rparr>"

definition late_berth_doc :: SofDocument where
  "late_berth_doc = sample_doc\<lparr>events := [anchored_0630, berthed_1000]\<rparr>"

definition reverse_doc :: SofDocument where
  "reverse_doc = sample_doc\<lparr>events := [berthed_0900, anchored_0630]\<rparr>"

definition undated_first_doc :: SofDocument where
  "undated_first_doc = sample_doc\<lparr>events := [pilot_undated, anchored_0630]\<rparr>"

definition undated_doc :: SofDocument where
  "undated_doc = sample_doc\<lparr>events := [pilot_undated, berthed_undated]\<rparr>"

definition same_time_doc :: SofDocument where
  "same_time_doc = sample_doc\<lparr>events := [anchored_0630, pilot_0630]\<rparr>"

definition berth_update :: SofEventUpdates where
  "berth_update =
     \<lparr>upd_timestamp = None, upd_remarks = None, upd_location = Some (Some ''Berth 4''),
      upd_vesselName = None, upd_portName = None\<rparr>"

text \<open>
  A rounding of the kind the runtime performs: a double nearest to the exact result
  (any one of them on a tie), and infinity beyond the largest double.
\<close>

definition nearest_rounding :: "real \<Rightarrow> double" where
  "nearest_rounding x =
     (if max_double < \<bar>x\<bar> then D_Inf (0 < x)
      else D_Fin (arg_min_on (\<lambda>d. \<bar>d - x\<bar>) doubles))"

text \<open>A valid calculator state: 10000 a day, 2 days allowed, 3.5 days used, USD to USD.\<close>

definition sample_calculator :: Calculator where
  "sample_calculator =
     \<lparr>dailyRate = Some (D_Fin 10000), allowedTimeDays = Some (D_Fin 2),
      usedTimeDays = Some (D_Fin 3.5), fromCurrency = ''USD'', toCurrency = ''USD'',
      exchangeRate = None, isLoadingExchangeRate = False,
      calculationResult = None, errors = []\<rparr>"

text \<open>\<open>Number\<close> on the texts typed in the examples.\<close>

definition sample_toNumber :: "string \<Rightarrow> double" where
  "sample_toNumber s = (if s = ''2'' then D_Fin 2 else if s = ''0'' then D_Fin 0 else D_NaN)"

section \<open>Properties of the timeline operations\<close>

subsection \<open>Auxiliary facts\<close>

lemma find_None_notin: "(find (\<lambda>e. f e = i) xs = None) = (i \<notin> set (map f xs))"
  by (induction xs) auto

lemma sofEvents_ids:
  "map id' sofEvents = [
    ''vessel_arrived_opl'', ''vessel_arrived_anchorage'', ''pilot_onboard_arrival'',
    ''tugs_made_fast_arrival'', ''vessel_alongside_berthed'', ''first_line_ashore'',
    ''all_fast'', ''gangway_secured'', ''free_pratique_granted'',
    ''immigration_clearance_completed'', ''customs_clearance_completed'',
    ''port_state_control_inspection'', ''port_clearance_granted'',
    ''draught_survey_initial'', ''hatch_tank_inspection'', ''surveyor_onboard'',
    ''sampling_start'', ''sampling_completed'', ''ballast_operations_start'',
    ''ballast_operations_stop'', ''hose_connection'', ''loading_arm_crane_inspection'',
    ''cargo_loading_started'', ''cargo_loading_stopped'', ''cargo_loading_resumed'',
    ''cargo_loading_completed'', ''cargo_discharging_started'',
    ''cargo_discharging_stopped'', ''cargo_discharging_resumed'',
    ''cargo_discharging_completed'', ''tank_cleaning_started'',
    ''tank_cleaning_completed'', ''hold_cleaning_started'', ''hold_cleaning_completed'',
    ''bunker_operations_started'', ''bunker_operations_completed'', ''ballasting_started'',
    ''ballasting_completed'', ''de_ballasting_started'', ''de_ballasting_completed'',
    ''weather_stoppage'', ''technical_breakdown_ship'', ''technical_breakdown_shore'',
    ''power_failure'', ''strike_labor_stoppage'', ''holiday_stoppage'',
    ''government_inspection_delay'', ''waiting_cargo_availability'',
    ''waiting_surveyor_documents'', ''waiting_berth_congestion'', ''vessel_shifting'',
    ''port_authority_stoppage'', ''nor_tendered'', ''nor_accepted'',
    ''ullage_survey_start'', ''ullage_survey_completed'', ''draught_survey_final'',
    ''cargo_tally_measurement_completed'', ''cargo_documents_completed'',
    ''mates_receipt_signed'', ''bill_of_lading_signed'', ''statement_of_facts_signed'',
    ''hose_arm_disconnected'', ''hatch_closing_completed'', ''pilot_onboard_departure'',
    ''tugs_made_fast_departure'', ''last_line_off'', ''vessel_unberthed'',
    ''vessel_departed_anchorage'', ''vessel_cleared_port_limits'', ''crew_change_start'',
    ''crew_change_completed'', ''medical_evacuation'', ''garbage_disposal_completed'',
    ''sludge_discharge_completed'', ''fresh_water_supply_start'',
    ''fresh_water_supply_completed'', ''stores_spare_parts_delivery'',
    ''isps_security_inspection''
  ]"
  by (simp add: sofEvents_def)

lemma sample_records_from_add:
  "addEventToSof sample_doc ''vessel_arrived_anchorage'' ''2025-08-06T06:30:00.000Z'' None None
     = Inr (sample_doc\<lparr>events := [anchored_0630]\<rparr>)"
  "addEventToSof sample_doc ''vessel_alongside_berthed'' ''2025-08-06T09:00:00.000Z'' None
       (Some ''Berth No'')
     = Inr (sample_doc\<lparr>events := [berthed_0900]\<rparr>)"
  "addEventToSof sample_doc ''pilot_onboard_arrival'' ''early morning'' None None
     = Inr (sample_doc\<lparr>events := [pilot_undated]\<rparr>)"
  by (simp_all add: addEventToSof_def getSofEventById_def sofEvents_def sample_doc_def
      createSofDocument_def anchored_0630_def berthed_0900_def pilot_undated_def pilot_0630_def)

lemma removed_nth:
  "i < length xs \<Longrightarrow>
   length (take i xs @ drop (i + 1) xs) = length xs - 1
   \<and> (\<forall>j < i. (take i xs @ drop (i + 1) xs) ! j = xs ! j)
   \<and> (\<forall>j. i \<le> j \<and> j < length xs - 1 \<longrightarrow>
         (take i xs @ drop (i + 1) xs) ! j = xs ! (j + 1))"
  by (auto simp: nth_append min_def)

subsection \<open>Adding an occurrence\<close>

text \<open>
  Claim C5. For every timeline and every event id that is not an id of the catalog,
  \<open>addEventToSof\<close> fails with the error whose message names the offending id; the
  failed call yields only that error, no document, and the document passed in is a
  value that the call cannot change. For every id of the catalog the call returns the
  document with the new occurrence, built from the catalog entry of that id, appended
  to its occurrence list.
\<close>

theorem addEventToSof_catalog:
  "(eventId \<notin> set (map id' sofEvents) \<longrightarrow>
      addEventToSof d eventId ts rem loc =
        Inl (Error (''Event with ID '' @ eventId @ '' not found'')))
   \<and> (eventId \<in> set (map id' sofEvents) \<longrightarrow>
      (\<exists>event \<in> set sofEvents. id' event = eventId \<and>
         addEventToSof d eventId ts rem loc =
           Inr (d\<lparr>events := events d @
             [\<lparr>id' = eventId, category = category event, name = name event,
               description = description event,
               requiresTimestamp = requiresTimestamp event,
               requiresRemarks = requiresRemarks event,
               requiresLocation = requiresLocation event,
               timestamp = ts, remarks = rem, location = loc,
               vesselName = Some (vesselName_doc d),
               portName = Some (portName_doc d)\<rparr>]\<rparr>)))"
proof (intro conjI impI)
  assume "eventId \<notin> set (map id' sofEvents)"
  then have "getSofEventById eventId = None"
    by (simp add: getSofEventById_def find_None_notin)
  then show "addEventToSof d eventId ts rem loc =
        Inl (Error (''Event with ID '' @ eventId @ '' not found''))"
    by (simp add: addEventToSof_def)
next
  assume "eventId \<in> set (map id' sofEvents)"
  then have "getSofEventById eventId \<noteq> None"
    by (simp add: getSofEventById_def find_None_notin)
  then obtain event where ev: "getSofEventById eventId = Some event" by blast
  then have "event \<in> set sofEvents" "id' event = eventId"
    by (auto simp: getSofEventById_def find_Some_iff)
  with ev show "\<exists>event \<in> set sofEvents. id' event = eventId \<and>
         addEventToSof d eventId ts rem loc =
           Inr (d\<lparr>events := events d @
             [\<lparr>id' = eventId, category = category event, name = name event,
               description = description event,
               requiresTimestamp = requiresTimestamp event,
               requiresRemarks = requiresRemarks event,
               requiresLocation = requiresLocation event,
               timestamp = ts, remarks = rem, location = loc,
               vesselName = Some (vesselName_doc d),
               portName = Some (portName_doc d)\<rparr>]\<rparr>)"
    by (auto simp: addEventToSof_def)
qed

theorem addEventToSof_catalog_witness:
  "''tea_break'' \<notin> set (map id' sofEvents)
   \<and> addEventToSof sample_doc ''tea_break'' ''2025-08-06T06:30:00.000Z'' None None =
       Inl (Error ''Event with ID tea_break not found'')
   \<and> ''vessel_alongside_berthed'' \<in> set (map id' sofEvents)
   \<and> (\<exists>d'. addEventToSof sample_doc ''vessel_alongside_berthed''
               ''2025-08-06T09:00:00.000Z'' None (Some ''Berth No'') = Inr d'
            \<and> length (events d') = Suc (length (events sample_doc))
            \<and> id' (last (events d')) = ''vessel_alongside_berthed'')"
proof -
  have h1: "''tea_break'' \<notin> set (map id' sofEvents)"
    by (simp add: sofEvents_ids)
  have h2: "''vessel_alongside_berthed'' \<in> set (map id' sofEvents)"
    by (simp add: sofEvents_ids)
  have r1: "addEventToSof sample_doc ''tea_break'' ''2025-08-06T06:30:00.000Z'' None None =
       Inl (Error ''Event with ID tea_break not found'')"
    using h1 addEventToSof_catalog [of "''tea_break''" sample_doc
        "''2025-08-06T06:30:00.000Z''" None None]
    by simp
  have r2: "\<exists>d'. addEventToSof sample_doc ''vessel_alongside_berthed''
               ''2025-08-06T09:00:00.000Z'' None (Some ''Berth No'') = Inr d'
            \<and> length (events d') = Suc (length (events sample_doc))
            \<and> id' (last (events d')) = ''vessel_alongside_berthed''"
    using h2 addEventToSof_catalog [of "''vessel_alongside_berthed''" sample_doc
        "''2025-08-06T09:00:00.000Z''" None "Some ''Berth No''"]
    by auto
  from h1 h2 r1 r2 show ?thesis by blast
qed

subsection \<open>Removing and updating an occurrence\<close>

text \<open>
  Claim C6. For every timeline and every integer index, \<open>removeEventFromSof\<close> and
  \<open>updateEventInSof\<close> fail, with the error whose message names the index, exactly when
  the index is not in \<open>[0, length)\<close>; a failed call yields only the error. With the
  index in bounds, removal returns the document with exactly that occurrence taken
  out (the occurrences before it keep their place, those after it move up by one), and
  the update returns the document in which every other occurrence is as before and the
  occurrence at the index keeps its id, category, name, description and requirement
  flags, its other fields being those of the updates where given.
\<close>

theorem remove_update_bounds:
  "(\<not> (0 \<le> i \<and> i < int (length (events d))) \<longrightarrow>
      removeEventFromSof d i =
        Inl (Error (''Event index '' @ Number_toString i @ '' is out of bounds''))
      \<and> updateEventInSof d i u =
        Inl (Error (''Event index '' @ Number_toString i @ '' is out of bounds'')))
   \<and> (0 \<le> i \<and> i < int (length (events d)) \<longrightarrow>
      (\<exists>d'. removeEventFromSof d i = Inr d'
         \<and> d' = d\<lparr>events := events d'\<rparr>
         \<and> length (events d') = length (events d) - 1
         \<and> (\<forall>j < nat i. events d' ! j = events d ! j)
         \<and> (\<forall>j. nat i \<le> j \<and> j < length (events d) - 1 \<longrightarrow>
               events d' ! j = events d ! (j + 1)))
      \<and> (\<exists>d'. updateEventInSof d i u = Inr d'
         \<and> d' = d\<lparr>events := events d'\<rparr>
         \<and> length (events d') = length (events d)
         \<and> (\<forall>j < length (events d). j \<noteq> nat i \<longrightarrow> events d' ! j = events d ! j)
         \<and> events d' ! nat i = spread_updates (events d ! nat i) u
         \<and> id' (events d' ! nat i) = id' (events d ! nat i)
         \<and> category (events d' ! nat i) = category (events d ! nat i)
         \<and> name (events d' ! nat i) = name (events d ! nat i)
         \<and> description (events d' ! nat i) = description (events d ! nat i)
         \<and> requiresTimestamp (events d' ! nat i) = requiresTimestamp (events d ! nat i)
         \<and> requiresRemarks (events d' ! nat i) = requiresRemarks (events d ! nat i)
         \<and> requiresLocation (events d' ! nat i) = requiresLocation (events d ! nat i)))"
proof -
  have out: "removeEventFromSof d i =
        Inl (Error (''Event index '' @ Number_toString i @ '' is out of bounds''))
      \<and> updateEventInSof d i u =
        Inl (Error (''Event index '' @ Number_toString i @ '' is out of bounds''))"
    if "\<not> (0 \<le> i \<and> i < int (length (events d)))"
    using that by (auto simp: removeEventFromSof_def updateEventInSof_def)
  have rem: "\<exists>d'. removeEventFromSof d i = Inr d'
         \<and> d' = d\<lparr>events := events d'\<rparr>
         \<and> length (events d') = length (events d) - 1
         \<and> (\<forall>j < nat i. events d' ! j = events d ! j)
         \<and> (\<forall>j. nat i \<le> j \<and> j < length (events d) - 1 \<longrightarrow>
               events d' ! j = events d ! (j + 1))"
    if b: "0 \<le> i \<and> i < int (length (events d))"
  proof -
    from b have n: "nat i < length (events d)" by linarith
    show ?thesis
      using b removed_nth [OF n] by (simp add: removeEventFromSof_def)
  qed
  have upd: "\<exists>d'. updateEventInSof d i u = Inr d'
         \<and> d' = d\<lparr>events := events d'\<rparr>
         \<and> length (events d') = length (events d)
         \<and> (\<forall>j < length (events d). j \<noteq> nat i \<longrightarrow> events d' ! j = events d ! j)
         \<and> events d' ! nat i = spread_updates (events d ! nat i) u
         \<and> id' (events d' ! nat i) = id' (events d ! nat i)
         \<and> category (events d' ! nat i) = category (events d ! nat i)
         \<and> name (events d' ! nat i) = name (events d ! nat i)
         \<and> description (events d' ! nat i) = description (events d ! nat i)
         \<and> requiresTimestamp (events d' ! nat i) = requiresTimestamp (events d ! nat i)
         \<and> requiresRemarks (events d' ! nat i) = requiresRemarks (events d ! nat i)
         \<and> requiresLocation (events d' ! nat i) = requiresLocation (events d ! nat i)"
    if b: "0 \<le> i \<and> i < int (length (events d))"
  proof -
    from b have n: "nat i < length (events d)" by linarith
    show ?thesis
      using b n by (simp add: updateEventInSof_def spread_updates_def)
  qed
  from out rem upd show ?thesis by blast
qed

theorem remove_update_bounds_witness:
  "\<not> (0 \<le> (2::int) \<and> 2 < int (length (events scenario_doc)))
   \<and> removeEventFromSof scenario_doc 2 = Inl (Error ''Event index 2 is out of bounds'')
   \<and> updateEventInSof scenario_doc 2 berth_update =
       Inl (Error ''Event index 2 is out of bounds'')
   \<and> (0 \<le> (1::int) \<and> 1 < int (length (events scenario_doc)))
   \<and> removeEventFromSof scenario_doc 1 = Inr (sample_doc\<lparr>events := [anchored_0630]\<rparr>)
   \<and> updateEventInSof scenario_doc 1 berth_update =
       Inr (sample_doc\<lparr>events :=
              [anchored_0630, berthed_0900\<lparr>location := Some ''Berth 4''\<rparr>]\<rparr>)"
proof -
  have len: "length (events scenario_doc) = 2"
    by (simp add: scenario_doc_def)
  have out: "removeEventFromSof scenario_doc 2 = Inl (Error ''Event index 2 is out of bounds'')
     \<and> updateEventInSof scenario_doc 2 berth_update =
       Inl (Error ''Event index 2 is out of bounds'')"
    using remove_update_bounds [of 2 scenario_doc berth_update] len
    by (simp add: Number_toString_def digit_char_def)
  from remove_update_bounds [of 1 scenario_doc berth_update] len
  obtain d1 d2 where
    r: "removeEventFromSof scenario_doc 1 = Inr d1" "d1 = scenario_doc\<lparr>events := events d1\<rparr>"
       "length (events d1) = 1" "events d1 ! 0 = events scenario_doc ! 0"
    and u: "updateEventInSof scenario_doc 1 berth_update = Inr d2"
       "d2 = scenario_doc\<lparr>events := events d2\<rparr>"
       "length (events d2) = 2" "events d2 ! 0 = events scenario_doc ! 0"
       "events d2 ! 1 = spread_updates (events scenario_doc ! 1) berth_update"
    by auto
  have e1: "events d1 = [anchored_0630]"
    using r(3,4) by (cases "events d1") (auto simp: scenario_doc_def)
  have e2: "events d2 = [anchored_0630, berthed_0900\<lparr>location := Some ''Berth 4''\<rparr>]"
    using u(3,4,5)
    by (auto simp: scenario_doc_def spread_updates_def berth_update_def
        list_eq_iff_nth_eq less_Suc_eq numeral_2_eq_2)
  have "d1 = sample_doc\<lparr>events := [anchored_0630]\<rparr>"
    using r(2) e1 by (simp add: scenario_doc_def)
  moreover have "d2 = sample_doc\<lparr>events :=
              [anchored_0630, berthed_0900\<lparr>location := Some ''Berth 4''\<rparr>]\<rparr>"
    using u(2) e2 by (simp add: scenario_doc_def)
  ultimately show ?thesis using out r(1) u(1) len by simp
qed

subsection \<open>The sort\<close>

lemma mset_insert_sorted: "mset (insert_sorted cmp x ys) = add_mset x (mset ys)"
  by (induction ys) auto

lemma mset_Array_sort: "mset (Array_sort cmp xs) = mset xs"
  by (induction xs) (simp_all add: Array_sort_def mset_insert_sorted)

lemma set_Array_sort: "set (Array_sort cmp xs) = set xs"
  by (metis mset_Array_sort set_mset_mset)

lemma length_Array_sort: "length (Array_sort cmp xs) = length xs"
  by (metis mset_Array_sort size_mset)

lemma insert_sorted_insort_key:
  assumes "g x \<noteq> NaN" and "\<forall>y \<in> set ys. g y \<noteq> NaN"
  shows "insert_sorted (\<lambda>a b. num_sub (g a) (g b)) x ys
           = insort_key (\<lambda>e. num_value (g e)) x ys"
  using assms
proof (induction ys)
  case Nil
  show ?case by simp
next
  case (Cons y ys)
  from Cons.prems obtain a b where ab: "g x = Num a" "g y = Num b"
    by (cases "g x"; cases "g y") auto
  from Cons.prems have "\<forall>y \<in> set ys. g y \<noteq> NaN" by simp
  with Cons.IH Cons.prems(1) have
    "insert_sorted (\<lambda>a b. num_sub (g a) (g b)) x ys = insort_key (\<lambda>e. num_value (g e)) x ys"
    by blast
  with ab show ?case by auto
qed

lemma Array_sort_sort_key:
  assumes "\<forall>y \<in> set xs. g y \<noteq> NaN"
  shows "Array_sort (\<lambda>a b. num_sub (g a) (g b)) xs = sort_key (\<lambda>e. num_value (g e)) xs"
  using assms
proof (induction xs)
  case Nil
  show ?case by (simp add: Array_sort_def)
next
  case (Cons x xs)
  then have ih: "Array_sort (\<lambda>a b. num_sub (g a) (g b)) xs = sort_key (\<lambda>e. num_value (g e)) xs"
    by simp
  have "Array_sort (\<lambda>a b. num_sub (g a) (g b)) (x # xs)
          = insert_sorted (\<lambda>a b. num_sub (g a) (g b)) x (Array_sort (\<lambda>a b. num_sub (g a) (g b)) xs)"
    by (simp add: Array_sort_def)
  also have "\<dots> = insort_key (\<lambda>e. num_value (g e)) x (Array_sort (\<lambda>a b. num_sub (g a) (g b)) xs)"
    using Cons.prems by (intro insert_sorted_insort_key) (simp_all add: set_Array_sort)
  finally show ?case using ih by simp
qed

lemma chronological_sort_key:
  assumes "\<forall>e \<in> set (events d). getTime (timestamp e) \<noteq> NaN"
  shows "getSofEventsChronological getTime d
           = sort_key (\<lambda>e. num_value (getTime (timestamp e))) (events d)"
  unfolding getSofEventsChronological_def
  using assms by (rule Array_sort_sort_key [where g = "\<lambda>e. getTime (timestamp e)"])

lemma sorted_first_Min:
  fixes xs :: "real list"
  assumes "sorted xs" and "xs \<noteq> []"
  shows "xs ! 0 = Min (set xs)"
proof -
  have "xs ! 0 \<le> y" if "y \<in> set xs" for y
  proof -
    from that obtain i where i: "i < length xs" "xs ! i = y"
      by (auto simp: in_set_conv_nth)
    from sorted_nth_mono [OF assms(1), of 0 i] i show ?thesis by simp
  qed
  moreover have "xs ! 0 \<in> set xs" using assms by simp
  ultimately show ?thesis using Min_eqI [of "set xs" "xs ! 0"] by auto
qed

lemma sorted_last_Max:
  fixes xs :: "real list"
  assumes "sorted xs" and "xs \<noteq> []"
  shows "xs ! (length xs - 1) = Max (set xs)"
proof -
  have "y \<le> xs ! (length xs - 1)" if "y \<in> set xs" for y
  proof -
    from that obtain i where i: "i < length xs" "xs ! i = y"
      by (auto simp: in_set_conv_nth)
    then have "i \<le> length xs - 1" "length xs - 1 < length xs" by arith+
    from sorted_nth_mono [OF assms(1) this] i show ?thesis by simp
  qed
  moreover have "xs ! (length xs - 1) \<in> set xs" using assms by simp
  ultimately show ?thesis using Max_eqI [of "set xs" "xs ! (length xs - 1)"] by auto
qed

lemma chronological_ends:
  assumes parse: "\<forall>e \<in> set (events d). getTime (timestamp e) \<noteq> NaN"
    and ne: "events d \<noteq> []"
  defines "ch \<equiv> getSofEventsChronological getTime d"
  defines "T \<equiv> parsed_times getTime d"
  shows "getTime (timestamp (ch ! 0)) = Num (Min T)"
    and "getTime (timestamp (ch ! (length ch - 1))) = Num (Max T)"
proof -
  let ?k = "\<lambda>e. num_value (getTime (timestamp e))"
  have ch: "ch = sort_key ?k (events d)"
    unfolding ch_def using parse by (rule chronological_sort_key)
  have srt: "sorted (map ?k ch)" by (simp add: ch)
  have len: "length ch = length (events d)" by (simp add: ch)
  have nonempty: "map ?k ch \<noteq> []" using ne len by auto
  have setk: "?k ` set ch = T" by (simp add: ch T_def parsed_times_def)
  have mem: "\<And>i. i < length ch \<Longrightarrow> getTime (timestamp (ch ! i)) = Num (?k (ch ! i))"
  proof -
    fix i assume "i < length ch"
    then have "ch ! i \<in> set (events d)" by (metis ch nth_mem set_sort)
    with parse have "getTime (timestamp (ch ! i)) \<noteq> NaN" by blast
    then show "getTime (timestamp (ch ! i)) = Num (?k (ch ! i))"
      by (cases "getTime (timestamp (ch ! i))") auto
  qed
  have pos: "0 < length ch" using ne len by simp
  have "?k (ch ! 0) = Min T"
    using sorted_first_Min [OF srt nonempty] pos by (simp add: setk)
  with mem [OF pos] show "getTime (timestamp (ch ! 0)) = Num (Min T)" by simp
  have "?k (ch ! (length ch - 1)) = Max T"
    using sorted_last_Max [OF srt nonempty] pos by (simp add: setk)
  with mem [of "length ch - 1"] pos
  show "getTime (timestamp (ch ! (length ch - 1))) = Num (Max T)" by simp
qed

subsection \<open>The chronological view\<close>

text \<open>
  Claim C7, amended. For every timeline the chronological view holds exactly the
  occurrences of the timeline (it is a permutation of them, none is dropped). When
  every timestamp parses, the view is ascending by parsed timestamp and occurrences
  with equal timestamps keep their insertion order. Occurrences whose timestamp does
  not parse are not moved behind the others: the comparison with them yields \<open>NaN\<close>,
  which the sort takes as equal.
\<close>

theorem chronological_sorted_stable:
  "mset (getSofEventsChronological getTime d) = mset (events d)
   \<and> ((\<forall>e \<in> set (events d). getTime (timestamp e) \<noteq> NaN) \<longrightarrow>
        sorted (map (\<lambda>e. num_value (getTime (timestamp e)))
                 (getSofEventsChronological getTime d))
        \<and> (\<forall>t. filter (\<lambda>e. getTime (timestamp e) = Num t) (getSofEventsChronological getTime d)
               = filter (\<lambda>e. getTime (timestamp e) = Num t) (events d)))"
proof (intro conjI impI allI)
  show "mset (getSofEventsChronological getTime d) = mset (events d)"
    by (simp add: getSofEventsChronological_def mset_Array_sort)
next
  assume parse: "\<forall>e \<in> set (events d). getTime (timestamp e) \<noteq> NaN"
  then show "sorted (map (\<lambda>e. num_value (getTime (timestamp e)))
                 (getSofEventsChronological getTime d))"
    by (simp add: chronological_sort_key)
next
  fix t
  assume parse: "\<forall>e \<in> set (events d). getTime (timestamp e) \<noteq> NaN"
  let ?k = "\<lambda>e. num_value (getTime (timestamp e))"
  have eq: "(getTime (timestamp e) = Num t) = (?k e = t)" if "e \<in> set (events d)" for e
    using parse that by (cases "getTime (timestamp e)") auto
  have ch: "getSofEventsChronological getTime d = sort_key ?k (events d)"
    using parse by (rule chronological_sort_key)
  have "filter (\<lambda>e. getTime (timestamp e) = Num t) (sort_key ?k (events d))
          = filter (\<lambda>e. ?k e = t) (sort_key ?k (events d))"
    by (rule filter_cong) (simp_all add: eq)
  also have "\<dots> = filter (\<lambda>e. ?k e = t) (events d)"
    by (rule sort_key_stable)
  also have "\<dots> = filter (\<lambda>e. getTime (timestamp e) = Num t) (events d)"
    by (rule filter_cong) (simp_all add: eq)
  finally show "filter (\<lambda>e. getTime (timestamp e) = Num t) (getSofEventsChronological getTime d)
               = filter (\<lambda>e. getTime (timestamp e) = Num t) (events d)"
    by (simp add: ch)
qed

theorem chronological_sorted_stable_witness:
  "map (\<lambda>e. sample_getTime (timestamp e)) (events reverse_doc)
     = [Num 1754470800000, Num 1754461800000]
   \<and> events reverse_doc = [berthed_0900, anchored_0630]
   \<and> getSofEventsChronological sample_getTime reverse_doc = [anchored_0630, berthed_0900]
   \<and> sorted (map (\<lambda>e. num_value (sample_getTime (timestamp e)))
               (getSofEventsChronological sample_getTime reverse_doc))
   \<and> mset (getSofEventsChronological sample_getTime reverse_doc) = mset (events reverse_doc)"
proof -
  have h: "\<forall>e \<in> set (events reverse_doc). sample_getTime (timestamp e) \<noteq> NaN"
    by (simp add: reverse_doc_def sample_getTime_def berthed_0900_def anchored_0630_def)
  have v: "getSofEventsChronological sample_getTime reverse_doc = [anchored_0630, berthed_0900]"
    by (simp add: getSofEventsChronological_def Array_sort_def reverse_doc_def
        sample_getTime_def berthed_0900_def anchored_0630_def)
  have m: "map (\<lambda>e. sample_getTime (timestamp e)) (events reverse_doc)
     = [Num 1754470800000, Num 1754461800000]"
    by (simp add: reverse_doc_def sample_getTime_def berthed_0900_def anchored_0630_def)
  from h v m chronological_sorted_stable [of sample_getTime reverse_doc]
  show ?thesis by (simp add: reverse_doc_def)
qed

text \<open>
  Claim C7 as stated fails: an occurrence whose timestamp does not parse, added before
  one whose timestamp parses, stays first in the chronological view.
\<close>

theorem chronological_unparseable_first:
  "sample_getTime (timestamp pilot_undated) = NaN
   \<and> sample_getTime (timestamp anchored_0630) = Num 1754461800000
   \<and> getSofEventsChronological sample_getTime undated_first_doc
       = [pilot_undated, anchored_0630]"
  by (simp add: getSofEventsChronological_def Array_sort_def undated_first_doc_def
      sample_getTime_def pilot_undated_def pilot_0630_def anchored_0630_def)

subsection \<open>Total time in port\<close>

text \<open>
  Claim C8, amended. \<open>calculateTotalTime\<close> returns null exactly when the timeline has
  fewer than 2 occurrences, whether or not their timestamps parse. With at least 2
  occurrences whose timestamps all parse it returns the hours between the earliest and
  the latest parsed timestamp, (latest - earliest) / 3600000 milliseconds, not rounded
  and not negative.
\<close>

theorem calculateTotalTime_hours:
  "(calculateTotalTime getTime d = None) = (length (events d) < 2)
   \<and> (2 \<le> length (events d) \<and> (\<forall>e \<in> set (events d). getTime (timestamp e) \<noteq> NaN) \<longrightarrow>
        calculateTotalTime getTime d
          = Some (Num ((Max (parsed_times getTime d) - Min (parsed_times getTime d)) / 3600000))
        \<and> 0 \<le> (Max (parsed_times getTime d) - Min (parsed_times getTime d)) / 3600000)"
proof (intro conjI impI)
  show "(calculateTotalTime getTime d = None) = (length (events d) < 2)"
    by (simp add: calculateTotalTime_def Let_def)
next
  assume a: "2 \<le> length (events d) \<and> (\<forall>e \<in> set (events d). getTime (timestamp e) \<noteq> NaN)"
  then have ne: "events d \<noteq> []" by auto
  from a have parse: "\<forall>e \<in> set (events d). getTime (timestamp e) \<noteq> NaN" by simp
  note ends = chronological_ends [OF parse ne, unfolded One_nat_def]
  from a show "calculateTotalTime getTime d
          = Some (Num ((Max (parsed_times getTime d) - Min (parsed_times getTime d)) / 3600000))"
    by (simp add: calculateTotalTime_def Let_def ends)
next
  assume a: "2 \<le> length (events d) \<and> (\<forall>e \<in> set (events d). getTime (timestamp e) \<noteq> NaN)"
  then have "events d \<noteq> []" by auto
  then have "finite (parsed_times getTime d)" "parsed_times getTime d \<noteq> {}"
    by (simp_all add: parsed_times_def)
  then have "Min (parsed_times getTime d) \<le> Max (parsed_times getTime d)"
    using Max_ge [OF _ Min_in, of "parsed_times getTime d"] by blast
  then show "0 \<le> (Max (parsed_times getTime d) - Min (parsed_times getTime d)) / 3600000"
    by simp
qed

theorem calculateTotalTime_hours_witness:
  "2 \<le> length (events scenario_doc)
   \<and> map (\<lambda>e. sample_getTime (timestamp e)) (events scenario_doc)
       = [Num 1754461800000, Num 1754470800000]
   \<and> calculateTotalTime sample_getTime scenario_doc = Some (Num 2.5)
   \<and> length (events missing_location_doc) < 2
   \<and> calculateTotalTime sample_getTime missing_location_doc = None"
proof -
  have h: "2 \<le> length (events scenario_doc)
     \<and> (\<forall>e \<in> set (events scenario_doc). sample_getTime (timestamp e) \<noteq> NaN)"
    by (simp add: scenario_doc_def sample_getTime_def berthed_0900_def anchored_0630_def)
  have T: "parsed_times sample_getTime scenario_doc = {1754461800000, 1754470800000}"
    by (simp add: parsed_times_def scenario_doc_def sample_getTime_def berthed_0900_def
        anchored_0630_def)
  have one: "length (events missing_location_doc) < 2"
    by (simp add: missing_location_doc_def)
  from h T calculateTotalTime_hours [of sample_getTime scenario_doc]
  have "calculateTotalTime sample_getTime scenario_doc = Some (Num 2.5)" by simp
  moreover from one calculateTotalTime_hours [of sample_getTime missing_location_doc]
  have "calculateTotalTime sample_getTime missing_location_doc = None" by simp
  moreover have "map (\<lambda>e. sample_getTime (timestamp e)) (events scenario_doc)
       = [Num 1754461800000, Num 1754470800000]"
    by (simp add: scenario_doc_def sample_getTime_def berthed_0900_def anchored_0630_def)
  ultimately show ?thesis using h one by simp
qed

text \<open>
  Claim C8 as stated fails: a timeline with two occurrences, neither with a timestamp
  that parses, has fewer than 2 parseable timestamps, and the result is \<open>NaN\<close>, not null.
\<close>

theorem calculateTotalTime_unparseable_NaN:
  "filter (\<lambda>e. sample_getTime (timestamp e) \<noteq> NaN) (events undated_doc) = []
   \<and> calculateTotalTime sample_getTime undated_doc = Some NaN"
  by (simp add: calculateTotalTime_def getSofEventsChronological_def Array_sort_def
      undated_doc_def sample_getTime_def pilot_undated_def pilot_0630_def
      berthed_undated_def berthed_0900_def)

subsection \<open>A zero total time in the summary\<close>

lemma Array_sort_no_greater:
  assumes "\<forall>x \<in> set xs. \<forall>y \<in> set xs. \<not> num_gt0 (cmp x y)"
  shows "Array_sort cmp xs = xs"
  using assms
proof (induction xs)
  case Nil
  show ?case by (simp add: Array_sort_def)
next
  case (Cons x xs)
  then have ih: "Array_sort cmp xs = xs" by simp
  have "Array_sort cmp (x # xs) = insert_sorted cmp x (Array_sort cmp xs)"
    by (simp add: Array_sort_def)
  also have "\<dots> = insert_sorted cmp x xs" by (simp only: ih)
  also have "\<dots> = x # xs"
    using Cons.prems by (cases xs) simp_all
  finally show ?case .
qed

lemma chronological_equal_times:
  assumes "\<forall>e \<in> set (events d). getTime (timestamp e) = NaN \<or> getTime (timestamp e) = Num t"
  shows "getSofEventsChronological getTime d = events d"
  unfolding getSofEventsChronological_def
proof (rule Array_sort_no_greater, intro ballI)
  fix x y
  assume "x \<in> set (events d)" and "y \<in> set (events d)"
  with assms have "getTime (timestamp x) = NaN \<or> getTime (timestamp x) = Num t"
    and "getTime (timestamp y) = NaN \<or> getTime (timestamp y) = Num t"
    by blast+
  then show "\<not> num_gt0 (num_sub (getTime (timestamp x)) (getTime (timestamp y)))"
    by auto
qed

lemma summary_total_null:
  assumes "calculateTotalTime getTime d = Some (Num 0) \<or> calculateTotalTime getTime d = Some NaN"
  shows "totalTimeInPort (operationalSummary (getSofResultSection getTime d)) = None"
  using assms by (auto simp: getSofResultSection_def Let_def)

text \<open>
  Claim C10, amended. For every timeline with at least 2 occurrences in which the
  first and the last occurrence of the chronological view have timestamps that parse
  to the same time, \<open>calculateTotalTime\<close> returns 0, and the operational summary of
  \<open>getSofResultSection\<close> reports \<open>totalTimeInPort\<close> as null: the zero is falsy where the
  summary rounds. For every timeline with at least 2 occurrences whose parsed
  timestamps are all equal (the earliest equals the latest), the chronological view is
  the stored order; \<open>calculateTotalTime\<close> returns 0 when the timestamps of the first
  and the last stored occurrence both parse, as they do when all timestamps parse, and
  \<open>NaN\<close> when one of the two does not; in both cases the summary reports null.
\<close>

theorem zero_total_reported_null:
  "(2 \<le> length (events d)
      \<and> getTime (timestamp (getSofEventsChronological getTime d ! 0)) = Num t
      \<and> getTime (timestamp (getSofEventsChronological getTime d
            ! (length (getSofEventsChronological getTime d) - 1))) = Num t \<longrightarrow>
      calculateTotalTime getTime d = Some (Num 0)
      \<and> totalTimeInPort (operationalSummary (getSofResultSection getTime d)) = None)
   \<and> (2 \<le> length (events d)
      \<and> (\<forall>e \<in> set (events d). getTime (timestamp e) = NaN \<or> getTime (timestamp e) = Num t)
      \<longrightarrow>
      getSofEventsChronological getTime d = events d
      \<and> calculateTotalTime getTime d =
          Some (if getTime (timestamp (events d ! 0)) = Num t
                   \<and> getTime (timestamp (events d ! (length (events d) - 1))) = Num t
                then Num 0 else NaN)
      \<and> totalTimeInPort (operationalSummary (getSofResultSection getTime d)) = None)"
proof (intro conjI impI)
  assume a: "2 \<le> length (events d)
      \<and> getTime (timestamp (getSofEventsChronological getTime d ! 0)) = Num t
      \<and> getTime (timestamp (getSofEventsChronological getTime d
            ! (length (getSofEventsChronological getTime d) - 1))) = Num t"
  then show total: "calculateTotalTime getTime d = Some (Num 0)"
    by (simp add: calculateTotalTime_def Let_def)
  then show "totalTimeInPort (operationalSummary (getSofResultSection getTime d)) = None"
    by (simp add: summary_total_null)
next
  assume a: "2 \<le> length (events d)
      \<and> (\<forall>e \<in> set (events d). getTime (timestamp e) = NaN \<or> getTime (timestamp e) = Num t)"
  then have eq: "\<forall>e \<in> set (events d). getTime (timestamp e) = NaN \<or> getTime (timestamp e) = Num t"
    by blast
  show ch: "getSofEventsChronological getTime d = events d"
    using eq by (rule chronological_equal_times)
  from a have i0: "0 < length (events d)" and i1: "length (events d) - 1 < length (events d)"
    by arith+
  have "events d ! 0 \<in> set (events d)"
    and "events d ! (length (events d) - 1) \<in> set (events d)"
    using nth_mem [OF i0] nth_mem [OF i1] by blast+
  with eq have f: "getTime (timestamp (events d ! 0)) = NaN
        \<or> getTime (timestamp (events d ! 0)) = Num t"
    and l: "getTime (timestamp (events d ! (length (events d) - 1))) = NaN
        \<or> getTime (timestamp (events d ! (length (events d) - 1))) = Num t"
    by blast+
  from a have len: "\<not> length (events d) < 2" by simp
  have "calculateTotalTime getTime d =
      Some (num_div (num_sub (getTime (timestamp (events d ! (length (events d) - 1))))
                             (getTime (timestamp (events d ! 0)))) (Num (1000 * 60 * 60)))"
    using len by (simp add: calculateTotalTime_def Let_def ch)
  with f l show total: "calculateTotalTime getTime d =
          Some (if getTime (timestamp (events d ! 0)) = Num t
                   \<and> getTime (timestamp (events d ! (length (events d) - 1))) = Num t
                then Num 0 else NaN)"
    by auto
  then have "calculateTotalTime getTime d = Some (Num 0)
      \<or> calculateTotalTime getTime d = Some NaN"
    by (simp split: if_splits)
  then show "totalTimeInPort (operationalSummary (getSofResultSection getTime d)) = None"
    by (rule summary_total_null)
qed

theorem zero_total_reported_null_witness:
  "2 \<le> length (events same_time_doc)
   \<and> map (\<lambda>e. sample_getTime (timestamp e)) (events same_time_doc)
       = [Num 1754461800000, Num 1754461800000]
   \<and> getSofEventsChronological sample_getTime same_time_doc = events same_time_doc
   \<and> calculateTotalTime sample_getTime same_time_doc = Some (Num 0)
   \<and> totalTimeInPort (operationalSummary (getSofResultSection sample_getTime same_time_doc))
       = None"
proof -
  have h1: "2 \<le> length (events same_time_doc)"
    by (simp add: same_time_doc_def)
  have m: "map (\<lambda>e. sample_getTime (timestamp e)) (events same_time_doc)
       = [Num 1754461800000, Num 1754461800000]"
    by (simp add: same_time_doc_def sample_getTime_def pilot_0630_def anchored_0630_def)
  have h2: "\<forall>e \<in> set (events same_time_doc).
      sample_getTime (timestamp e) = NaN \<or> sample_getTime (timestamp e) = Num 1754461800000"
    by (simp add: same_time_doc_def sample_getTime_def pilot_0630_def anchored_0630_def)
  have ends: "sample_getTime (timestamp (events same_time_doc ! 0)) = Num 1754461800000"
    "sample_getTime (timestamp (events same_time_doc ! (length (events same_time_doc) - 1)))
       = Num 1754461800000"
    by (simp_all add: same_time_doc_def sample_getTime_def pilot_0630_def anchored_0630_def)
  from zero_total_reported_null [of same_time_doc sample_getTime 1754461800000] h1 h2
  have "getSofEventsChronological sample_getTime same_time_doc = events same_time_doc"
    and "calculateTotalTime sample_getTime same_time_doc =
          Some (if sample_getTime (timestamp (events same_time_doc ! 0)) = Num 1754461800000
                   \<and> sample_getTime (timestamp (events same_time_doc
                        ! (length (events same_time_doc) - 1))) = Num 1754461800000
                then Num 0 else NaN)"
    and "totalTimeInPort (operationalSummary (getSofResultSection sample_getTime same_time_doc))
       = None"
    by blast+
  with h1 m ends show ?thesis by simp
qed

text \<open>
  Claim C10 as stated fails: this timeline has 2 occurrences and one parsed timestamp,
  which is both the earliest and the latest; the timestamp of the first occurrence
  does not parse, and \<open>calculateTotalTime\<close> returns \<open>NaN\<close>, not 0. The summary reports
  null.
\<close>

theorem one_parsed_timestamp_NaN:
  "length (events undated_first_doc) = 2
   \<and> map (\<lambda>e. sample_getTime (timestamp e)) (events undated_first_doc)
       = [NaN, Num 1754461800000]
   \<and> calculateTotalTime sample_getTime undated_first_doc = Some NaN
   \<and> totalTimeInPort
       (operationalSummary (getSofResultSection sample_getTime undated_first_doc)) = None"
  by (simp add: getSofResultSection_def calculateTotalTime_def getSofEventsChronological_def
      Array_sort_def Let_def undated_first_doc_def sample_getTime_def pilot_undated_def
      pilot_0630_def anchored_0630_def)

subsection \<open>The CSV export\<close>

lemma foldl_append_concat:
  "foldl (\<lambda>acc x. acc @ f x) acc xs = acc @ concat (map f xs)"
  by (induction xs arbitrary: acc) simp_all

text \<open>
  Claim C9, amended. For every timeline the CSV export begins with the header line
  \<open>Event Category,Event Name,Timestamp,Location,Remarks\<close> and then holds exactly one
  line per occurrence, in the order in which the occurrences are stored in the
  timeline (insertion order; the export does not sort). Each line holds the category,
  name, timestamp, location and remarks, each between double quotes, separated by
  commas; a missing location or remarks is the empty text.
\<close>

theorem exportSofToCsv_rows:
  "exportSofToCsv d =
     ''Event Category,Event Name,Timestamp,Location,Remarks'' @ [CHR 0x0A] @
     concat (map (\<lambda>e.
         quoted (category_value (category e)) @ '','' @
         quoted (name e) @ '','' @
         quoted (timestamp e) @ '','' @
         quoted (case location e of None \<Rightarrow> [] | Some l \<Rightarrow> l) @ '','' @
         quoted (case remarks e of None \<Rightarrow> [] | Some r \<Rightarrow> r) @ [CHR 0x0A])
       (events d))"
proof -
  have row: "join_comma (csv_row e) @ [CHR 0x0A] =
         quoted (category_value (category e)) @ '','' @
         quoted (name e) @ '','' @
         quoted (timestamp e) @ '','' @
         quoted (case location e of None \<Rightarrow> [] | Some l \<Rightarrow> l) @ '','' @
         quoted (case remarks e of None \<Rightarrow> [] | Some r \<Rightarrow> r) @ [CHR 0x0A]" for e
    by (simp add: csv_row_def or_default_def split: option.splits)
  have "exportSofToCsv d =
          csv_header @ concat (map (\<lambda>e. join_comma (csv_row e) @ [CHR 0x0A]) (events d))"
    unfolding exportSofToCsv_def by (rule foldl_append_concat)
  then show ?thesis by (simp only: row csv_header_def append_assoc)
qed

theorem exportSofToCsv_rows_witness:
  "exportSofToCsv missing_location_doc =
     ''Event Category,Event Name,Timestamp,Location,Remarks'' @ [CHR 0x0A] @
     quoted ''Arrival & Port Entry'' @ '','' @ quoted ''Anchored'' @ '','' @
     quoted ''2025-08-06T06:30:00.000Z'' @ '','' @ quoted [] @ '','' @ quoted [] @ [CHR 0x0A]"
  using exportSofToCsv_rows [of missing_location_doc]
  by (simp add: missing_location_doc_def anchored_0630_def)

text \<open>
  Claim C9 as stated fails: with berthed at 09:00 added before anchored at 06:30, the
  chronological view has the anchorage first and the export has the berthing first.
\<close>

theorem exportSofToCsv_insertion_order:
  "getSofEventsChronological sample_getTime reverse_doc = [anchored_0630, berthed_0900]
   \<and> exportSofToCsv reverse_doc =
       csv_header @ join_comma (csv_row berthed_0900) @ [CHR 0x0A]
                  @ join_comma (csv_row anchored_0630) @ [CHR 0x0A]
   \<and> exportSofToCsv reverse_doc \<noteq>
       csv_header @ join_comma (csv_row anchored_0630) @ [CHR 0x0A]
                  @ join_comma (csv_row berthed_0900) @ [CHR 0x0A]"
  by (simp add: getSofEventsChronological_def Array_sort_def exportSofToCsv_def
      reverse_doc_def sample_getTime_def berthed_0900_def anchored_0630_def
      csv_row_def quoted_def or_default_def csv_header_def)

subsection \<open>Anomalies in the result section\<close>

text \<open>
  Claim C3, amended. For every timeline, every formatted event of the result section
  carries the anomalies text \<open>Clean\<close>, whatever the requirement flags of the occurrence
  and whichever of its fields are missing; no missing-required-field anomaly is
  produced. A missing or empty location is shown as \<open>-\<close>.
\<close>

theorem formattedEvents_always_clean:
  "map anomalies (formattedEvents (getSofResultSection getTime d))
     = replicate (length (events d)) ''Clean''
   \<and> map location_fmt (formattedEvents (getSofResultSection getTime d))
     = map (\<lambda>e. case location e of None \<Rightarrow> ''-'' | Some l \<Rightarrow> if l = [] then ''-'' else l)
         (getSofEventsChronological getTime d)"
proof -
  have len: "length (getSofEventsChronological getTime d) = length (events d)"
    by (simp add: getSofEventsChronological_def length_Array_sort)
  have a: "anomalies (format_event pairs e) = ''Clean''" for pairs e
    by (simp add: format_event_def Let_def)
  have l: "location_fmt (format_event pairs e)
             = (case location e of None \<Rightarrow> ''-'' | Some l \<Rightarrow> if l = [] then ''-'' else l)"
    for pairs e
    by (simp add: format_event_def Let_def or_default_def)
  have "map anomalies (formattedEvents (getSofResultSection getTime d))
          = map (\<lambda>e. ''Clean'') (getSofEventsChronological getTime d)"
    by (simp add: getSofResultSection_def Let_def a comp_def)
  also have "\<dots> = replicate (length (events d)) ''Clean''"
    by (simp only: map_replicate_const len)
  finally have first: "map anomalies (formattedEvents (getSofResultSection getTime d))
     = replicate (length (events d)) ''Clean''" .
  have "map location_fmt (formattedEvents (getSofResultSection getTime d))
     = map (\<lambda>e. case location e of None \<Rightarrow> ''-'' | Some l \<Rightarrow> if l = [] then ''-'' else l)
         (getSofEventsChronological getTime d)"
    by (simp add: getSofResultSection_def Let_def l comp_def)
  with first show ?thesis by simp
qed

text \<open>
  Claim C3 as stated fails: the anchorage occurrence requires a location and has none,
  and its formatted event is \<open>Clean\<close>.
\<close>

theorem missing_location_not_flagged:
  "requiresLocation anchored_0630 = Some True
   \<and> location anchored_0630 = None
   \<and> events missing_location_doc = [anchored_0630]
   \<and> map anomalies (formattedEvents (getSofResultSection sample_getTime missing_location_doc))
       = [''Clean'']
   \<and> map location_fmt (formattedEvents (getSofResultSection sample_getTime missing_location_doc))
       = [''-'']"
  by (simp add: getSofResultSection_def Let_def format_event_def
      getSofEventsChronological_def Array_sort_def or_default_def
      missing_location_doc_def anchored_0630_def)

theorem formattedEvents_always_clean_witness:
  "map anomalies (formattedEvents (getSofResultSection sample_getTime scenario_doc))
     = [''Clean'', ''Clean'']"
  using formattedEvents_always_clean [of sample_getTime scenario_doc]
  by (simp add: scenario_doc_def numeral_2_eq_2)

subsection \<open>Milestone pairs\<close>

lemma find_id_Some:
  "find (\<lambda>x. id' x = s) xs = Some a \<Longrightarrow> a \<in> set xs \<and> id' a = s"
  by (auto simp: find_Some_iff)

lemma find_id_present:
  "s \<in> set (map id' xs) \<Longrightarrow> \<exists>a. find (\<lambda>x. id' x = s) xs = Some a"
  using find_None_notin [of id' s xs] by (cases "find (\<lambda>x. id' x = s) xs") auto

lemma eventPairs_eq:
  "eventPairs (getSofResultSection getTime d) =
     push_pair
       (find (\<lambda>e. id' e = ''vessel_arrived_anchorage'')
          (getSofEventsChronological getTime d))
       (find (\<lambda>e. id' e = ''vessel_alongside_berthed'')
          (getSofEventsChronological getTime d))
       (Num 2.5) @
     push_pair
       (find (\<lambda>e. id' e = ''vessel_alongside_berthed'')
          (getSofEventsChronological getTime d))
       (find (\<lambda>e. id' e = ''cargo_loading_started'') (getSofEventsChronological getTime d))
       (Num 1.0) @
     push_pair
       (find (\<lambda>e. id' e = ''cargo_loading_started'') (getSofEventsChronological getTime d))
       (find (\<lambda>e. id' e = ''cargo_loading_completed'')
          (getSofEventsChronological getTime d))
       (Num 11.5) @
     push_pair
       (find (\<lambda>e. id' e = ''cargo_loading_completed'')
          (getSofEventsChronological getTime d))
       (find (\<lambda>e. id' e = ''vessel_cleared_port_limits'')
          (getSofEventsChronological getTime d))
       (Num 1.75)"
  by (simp add: getSofResultSection_def Let_def fixedDurations_def)

lemma push_pair_mem:
  "(p \<in> set (push_pair (find (\<lambda>x. id' x = s) xs) (find (\<lambda>x. id' x = e) xs) dur)) =
   (\<exists>a b. find (\<lambda>x. id' x = s) xs = Some a \<and> find (\<lambda>x. id' x = e) xs = Some b
          \<and> p = \<lparr>startEvent = a, endEvent = b, duration = dur\<rparr>)"
  by (auto simp: push_pair_def split: option.splits)

lemma push_pair_row:
  assumes "p \<in> set (push_pair (find (\<lambda>x. id' x = s) xs) (find (\<lambda>x. id' x = e) xs) dur)"
  shows "id' (startEvent p) = s \<and> id' (endEvent p) = e \<and> duration p = dur
         \<and> startEvent p \<in> set xs \<and> endEvent p \<in> set xs"
proof -
  from assms obtain a b where
    ab: "find (\<lambda>x. id' x = s) xs = Some a" "find (\<lambda>x. id' x = e) xs = Some b"
        "p = \<lparr>startEvent = a, endEvent = b, duration = dur\<rparr>"
    unfolding push_pair_mem by blast
  from find_id_Some [OF ab(1)] find_id_Some [OF ab(2)] ab(3) show ?thesis by simp
qed

lemma push_pair_present:
  assumes "s \<in> set (map id' xs)" and "e \<in> set (map id' xs)"
  shows "\<exists>p \<in> set (push_pair (find (\<lambda>x. id' x = s) xs) (find (\<lambda>x. id' x = e) xs) dur).
           id' (startEvent p) = s \<and> id' (endEvent p) = e \<and> duration p = dur"
proof -
  from find_id_present [OF assms(1)] obtain a where a: "find (\<lambda>x. id' x = s) xs = Some a" ..
  from find_id_present [OF assms(2)] obtain b where b: "find (\<lambda>x. id' x = e) xs = Some b" ..
  from find_id_Some [OF a] find_id_Some [OF b] a b show ?thesis
    by (simp add: push_pair_def)
qed

text \<open>
  Claim C1, amended. For every timeline the milestone pairing of the result section
  reports, for each adjacent pair of milestones (anchored, berthed, cargo loading
  started, cargo loading completed, departed) that are both present in the
  chronological view, a pair whose duration is the constant of the fixed table for that
  pair (2.5, 1.0, 11.5 and 1.75 hours), whatever the timestamps of the two occurrences
  are; and it reports no other pair. The timestamps are never subtracted.
\<close>

theorem eventPairs_fixed_durations:
  "(\<forall>p \<in> set (eventPairs (getSofResultSection getTime d)).
      (id' (startEvent p) = ''vessel_arrived_anchorage''
          \<and> id' (endEvent p) = ''vessel_alongside_berthed''
           \<and> duration p = Num 2.5
       \<or> id' (startEvent p) = ''vessel_alongside_berthed''
           \<and> id' (endEvent p) = ''cargo_loading_started''
           \<and> duration p = Num 1.0
       \<or> id' (startEvent p) = ''cargo_loading_started''
           \<and> id' (endEvent p) = ''cargo_loading_completed''
           \<and> duration p = Num 11.5
       \<or> id' (startEvent p) = ''cargo_loading_completed''
           \<and> id' (endEvent p) = ''vessel_cleared_port_limits''
           \<and> duration p = Num 1.75)
      \<and> startEvent p \<in> set (getSofEventsChronological getTime d)
      \<and> endEvent p \<in> set (getSofEventsChronological getTime d))
   \<and> (''vessel_arrived_anchorage'' \<in> set (map id' (getSofEventsChronological getTime d))
     \<and> ''vessel_alongside_berthed''
           \<in> set (map id' (getSofEventsChronological getTime d)) \<longrightarrow>
     (\<exists>p \<in> set (eventPairs (getSofResultSection getTime d)).
        id' (startEvent p) = ''vessel_arrived_anchorage''
            \<and> id' (endEvent p) = ''vessel_alongside_berthed''
        \<and> duration p = Num 2.5))
   \<and> (''vessel_alongside_berthed'' \<in> set (map id' (getSofEventsChronological getTime d))
     \<and> ''cargo_loading_started''
           \<in> set (map id' (getSofEventsChronological getTime d)) \<longrightarrow>
     (\<exists>p \<in> set (eventPairs (getSofResultSection getTime d)).
        id' (startEvent p) = ''vessel_alongside_berthed''
            \<and> id' (endEvent p) = ''cargo_loading_started''
        \<and> duration p = Num 1.0))
   \<and> (''cargo_loading_started'' \<in> set (map id' (getSofEventsChronological getTime d))
     \<and> ''cargo_loading_completed''
           \<in> set (map id' (getSofEventsChronological getTime d)) \<longrightarrow>
     (\<exists>p \<in> set (eventPairs (getSofResultSection getTime d)).
        id' (startEvent p) = ''cargo_loading_started''
            \<and> id' (endEvent p) = ''cargo_loading_completed''
        \<and> duration p = Num 11.5))
   \<and> (''cargo_loading_completed'' \<in> set (map id' (getSofEventsChronological getTime d))
     \<and> ''vessel_cleared_port_limits''
           \<in> set (map id' (getSofEventsChronological getTime d)) \<longrightarrow>
     (\<exists>p \<in> set (eventPairs (getSofResultSection getTime d)).
        id' (startEvent p) = ''cargo_loading_completed''
            \<and> id' (endEvent p) = ''vessel_cleared_port_limits''
        \<and> duration p = Num 1.75))"
proof -
  have one: "(id' (startEvent p) = ''vessel_arrived_anchorage''
      \<and> id' (endEvent p) = ''vessel_alongside_berthed''
           \<and> duration p = Num 2.5
       \<or> id' (startEvent p) = ''vessel_alongside_berthed''
           \<and> id' (endEvent p) = ''cargo_loading_started''
           \<and> duration p = Num 1.0
       \<or> id' (startEvent p) = ''cargo_loading_started''
           \<and> id' (endEvent p) = ''cargo_loading_completed''
           \<and> duration p = Num 11.5
       \<or> id' (startEvent p) = ''cargo_loading_completed''
           \<and> id' (endEvent p) = ''vessel_cleared_port_limits''
           \<and> duration p = Num 1.75)
      \<and> startEvent p \<in> set (getSofEventsChronological getTime d)
      \<and> endEvent p \<in> set (getSofEventsChronological getTime d)"
    if "p \<in> set (eventPairs (getSofResultSection getTime d))" for p
  proof -
    from that consider
        "p \<in> set (push_pair
         (find (\<lambda>e. id' e = ''vessel_arrived_anchorage'')
            (getSofEventsChronological getTime d))
         (find (\<lambda>e. id' e = ''vessel_alongside_berthed'')
            (getSofEventsChronological getTime d))
         (Num 2.5))"
      | "p \<in> set (push_pair
         (find (\<lambda>e. id' e = ''vessel_alongside_berthed'')
            (getSofEventsChronological getTime d))
         (find (\<lambda>e. id' e = ''cargo_loading_started'')
            (getSofEventsChronological getTime d))
         (Num 1.0))"
      | "p \<in> set (push_pair
         (find (\<lambda>e. id' e = ''cargo_loading_started'')
            (getSofEventsChronological getTime d))
         (find (\<lambda>e. id' e = ''cargo_loading_completed'')
            (getSofEventsChronological getTime d))
         (Num 11.5))"
      | "p \<in> set (push_pair
         (find (\<lambda>e. id' e = ''cargo_loading_completed'')
            (getSofEventsChronological getTime d))
         (find (\<lambda>e. id' e = ''vessel_cleared_port_limits'')
            (getSofEventsChronological getTime d))
         (Num 1.75))"
      unfolding eventPairs_eq set_append Un_iff by blast
    then show ?thesis
    proof cases
      case 1 from push_pair_row [OF 1] show ?thesis by simp
    next
      case 2 from push_pair_row [OF 2] show ?thesis by simp
    next
      case 3 from push_pair_row [OF 3] show ?thesis by simp
    next
      case 4 from push_pair_row [OF 4] show ?thesis by simp
    qed
  qed
  have row1: "(''vessel_arrived_anchorage''
        \<in> set (map id' (getSofEventsChronological getTime d))
      \<and> ''vessel_alongside_berthed''
            \<in> set (map id' (getSofEventsChronological getTime d)) \<longrightarrow>
      (\<exists>p \<in> set (eventPairs (getSofResultSection getTime d)).
         id' (startEvent p) = ''vessel_arrived_anchorage''
             \<and> id' (endEvent p) = ''vessel_alongside_berthed''
         \<and> duration p = Num 2.5))"
  proof
    assume a: "''vessel_arrived_anchorage''
          \<in> set (map id' (getSofEventsChronological getTime d))
      \<and> ''vessel_alongside_berthed'' \<in> set (map id' (getSofEventsChronological getTime d))"
    from push_pair_present [OF conjunct1 [OF a] conjunct2 [OF a], of "Num 2.5"]
    show "\<exists>p \<in> set (eventPairs (getSofResultSection getTime d)).
        id' (startEvent p) = ''vessel_arrived_anchorage''
            \<and> id' (endEvent p) = ''vessel_alongside_berthed''
        \<and> duration p = Num 2.5"
      unfolding eventPairs_eq set_append by (rule bexE) (rule bexI, assumption, simp)
  qed
  have row2: "(''vessel_alongside_berthed''
        \<in> set (map id' (getSofEventsChronological getTime d))
      \<and> ''cargo_loading_started''
            \<in> set (map id' (getSofEventsChronological getTime d)) \<longrightarrow>
      (\<exists>p \<in> set (eventPairs (getSofResultSection getTime d)).
         id' (startEvent p) = ''vessel_alongside_berthed''
             \<and> id' (endEvent p) = ''cargo_loading_started''
         \<and> duration p = Num 1.0))"
  proof
    assume a: "''vessel_alongside_berthed''
          \<in> set (map id' (getSofEventsChronological getTime d))
      \<and> ''cargo_loading_started'' \<in> set (map id' (getSofEventsChronological getTime d))"
    from push_pair_present [OF conjunct1 [OF a] conjunct2 [OF a], of "Num 1.0"]
    show "\<exists>p \<in> set (eventPairs (getSofResultSection getTime d)).
        id' (startEvent p) = ''vessel_alongside_berthed''
            \<and> id' (endEvent p) = ''cargo_loading_started''
        \<and> duration p = Num 1.0"
      unfolding eventPairs_eq set_append by (rule bexE) (rule bexI, assumption, simp)
  qed
  have row3: "(''cargo_loading_started'' \<in> set (map id' (getSofEventsChronological getTime d))
      \<and> ''cargo_loading_completed''
            \<in> set (map id' (getSofEventsChronological getTime d)) \<longrightarrow>
      (\<exists>p \<in> set (eventPairs (getSofResultSection getTime d)).
         id' (startEvent p) = ''cargo_loading_started''
             \<and> id' (endEvent p) = ''cargo_loading_completed''
         \<and> duration p = Num 11.5))"
  proof
    assume a: "''cargo_loading_started'' \<in> set (map id' (getSofEventsChronological getTime d))
      \<and> ''cargo_loading_completed'' \<in> set (map id' (getSofEventsChronological getTime d))"
    from push_pair_present [OF conjunct1 [OF a] conjunct2 [OF a], of "Num 11.5"]
    show "\<exists>p \<in> set (eventPairs (getSofResultSection getTime d)).
        id' (startEvent p) = ''cargo_loading_started''
            \<and> id' (endEvent p) = ''cargo_loading_completed''
        \<and> duration p = Num 11.5"
      unfolding eventPairs_eq set_append by (rule bexE) (rule bexI, assumption, simp)
  qed
  have row4: "(''cargo_loading_completed'' \<in> set (map id' (getSofEventsChronological getTime d))
      \<and> ''vessel_cleared_port_limits''
            \<in> set (map id' (getSofEventsChronological getTime d)) \<longrightarrow>
      (\<exists>p \<in> set (eventPairs (getSofResultSection getTime d)).
         id' (startEvent p) = ''cargo_loading_completed''
             \<and> id' (endEvent p) = ''vessel_cleared_port_limits''
         \<and> duration p = Num 1.75))"
  proof
    assume a: "''cargo_loading_completed'' \<in> set (map id' (getSofEventsChronological getTime d))
      \<and> ''vessel_cleared_port_limits''
            \<in> set (map id' (getSofEventsChronological getTime d))"
    from push_pair_present [OF conjunct1 [OF a] conjunct2 [OF a], of "Num 1.75"]
    show "\<exists>p \<in> set (eventPairs (getSofResultSection getTime d)).
        id' (startEvent p) = ''cargo_loading_completed''
            \<and> id' (endEvent p) = ''vessel_cleared_port_limits''
        \<and> duration p = Num 1.75"
      unfolding eventPairs_eq set_append by (rule bexE) (rule bexI, assumption, simp)
  qed
  from one have all: "\<forall>p \<in> set (eventPairs (getSofResultSection getTime d)). 
      (id' (startEvent p) = ''vessel_arrived_anchorage''
          \<and> id' (endEvent p) = ''vessel_alongside_berthed''
           \<and> duration p = Num 2.5
       \<or> id' (startEvent p) = ''vessel_alongside_berthed''
           \<and> id' (endEvent p) = ''cargo_loading_started''
           \<and> duration p = Num 1.0
       \<or> id' (startEvent p) = ''cargo_loading_started''
           \<and> id' (endEvent p) = ''cargo_loading_completed''
           \<and> duration p = Num 11.5
       \<or> id' (startEvent p) = ''cargo_loading_completed''
           \<and> id' (endEvent p) = ''vessel_cleared_port_limits''
           \<and> duration p = Num 1.75)
      \<and> startEvent p \<in> set (getSofEventsChronological getTime d)
      \<and> endEvent p \<in> set (getSofEventsChronological getTime d)"
    by (intro ballI)
  show ?thesis by (rule conjI all row1 row2 row3 row4)+
qed

lemma scenario_chronological:
  "getSofEventsChronological sample_getTime scenario_doc = [anchored_0630, berthed_0900]"
  by (simp add: getSofEventsChronological_def Array_sort_def scenario_doc_def
      sample_getTime_def berthed_0900_def anchored_0630_def)

lemma scenario_pairs:
  "eventPairs (getSofResultSection sample_getTime scenario_doc)
     = [\<lparr>startEvent = anchored_0630, endEvent = berthed_0900, duration = Num 2.5\<rparr>]"
  unfolding eventPairs_eq scenario_chronological
  by (simp add: push_pair_def berthed_0900_def anchored_0630_def)

theorem eventPairs_fixed_durations_witness:
  "''vessel_arrived_anchorage''
      \<in> set (map id' (getSofEventsChronological sample_getTime scenario_doc))
   \<and> ''vessel_alongside_berthed''
      \<in> set (map id' (getSofEventsChronological sample_getTime scenario_doc))
   \<and> \<lparr>startEvent = anchored_0630, endEvent = berthed_0900, duration = Num 2.5\<rparr>
      \<in> set (eventPairs (getSofResultSection sample_getTime scenario_doc))
   \<and> (\<exists>p \<in> set (eventPairs (getSofResultSection sample_getTime scenario_doc)).
        id' (startEvent p) = ''vessel_arrived_anchorage''
        \<and> id' (endEvent p) = ''vessel_alongside_berthed'' \<and> duration p = Num 2.5)
   \<and> calculateDuration sample_getTime (timestamp anchored_0630) (timestamp berthed_0900)
      = Num 2.5"
proof -
  have h1: "''vessel_arrived_anchorage''
      \<in> set (map id' (getSofEventsChronological sample_getTime scenario_doc))"
    and h2: "''vessel_alongside_berthed''
      \<in> set (map id' (getSofEventsChronological sample_getTime scenario_doc))"
    unfolding scenario_chronological by (simp_all add: berthed_0900_def anchored_0630_def)
  have m: "\<lparr>startEvent = anchored_0630, endEvent = berthed_0900, duration = Num 2.5\<rparr>
      \<in> set (eventPairs (getSofResultSection sample_getTime scenario_doc))"
    unfolding scenario_pairs by simp
  have ex: "\<exists>p \<in> set (eventPairs (getSofResultSection sample_getTime scenario_doc)).
        id' (startEvent p) = ''vessel_arrived_anchorage''
        \<and> id' (endEvent p) = ''vessel_alongside_berthed'' \<and> duration p = Num 2.5"
    using eventPairs_fixed_durations [of sample_getTime scenario_doc] h1 h2 by blast
  have dur: "calculateDuration sample_getTime (timestamp anchored_0630) (timestamp berthed_0900)
      = Num 2.5"
    by (simp add: calculateDuration_def sample_getTime_def berthed_0900_def anchored_0630_def)
  from h1 h2 m ex dur show ?thesis by blast
qed

text \<open>
  Claim C1 as stated fails: with the anchorage at 06:30 and the berthing at 10:00 the
  elapsed time is 3.5 hours, and the pair reports the constant 2.5.
\<close>

theorem eventPairs_not_elapsed_time:
  "eventPairs (getSofResultSection sample_getTime late_berth_doc)
     = [\<lparr>startEvent = anchored_0630, endEvent = berthed_1000, duration = Num 2.5\<rparr>]
   \<and> calculateDuration sample_getTime (timestamp anchored_0630) (timestamp berthed_1000)
     = Num 3.5"
proof -
  have ch: "getSofEventsChronological sample_getTime late_berth_doc
              = [anchored_0630, berthed_1000]"
    by (simp add: getSofEventsChronological_def Array_sort_def late_berth_doc_def
        sample_getTime_def berthed_1000_def berthed_0900_def anchored_0630_def)
  have "eventPairs (getSofResultSection sample_getTime late_berth_doc)
     = [\<lparr>startEvent = anchored_0630, endEvent = berthed_1000, duration = Num 2.5\<rparr>]"
    unfolding eventPairs_eq ch
    by (simp add: push_pair_def berthed_1000_def berthed_0900_def anchored_0630_def)
  moreover have
    "calculateDuration sample_getTime (timestamp anchored_0630) (timestamp berthed_1000)
     = Num 3.5"
    by (simp add: calculateDuration_def sample_getTime_def berthed_1000_def berthed_0900_def
        anchored_0630_def)
  ultimately show ?thesis by simp
qed

section \<open>Properties of the demurrage calculator\<close>

subsection \<open>Doubles and rounding\<close>

lemma ulp_min_pos: "0 < ulp_min"
  by (simp add: ulp_min_def)

lemma doublesI:
  "\<bar>m\<bar> < 2 ^ 53 \<Longrightarrow> n \<le> 2045 \<Longrightarrow> of_int m * 2 ^ n * ulp_min \<in> doubles"
  unfolding doubles_def by blast

lemma zero_in_doubles: "0 \<in> doubles"
  using doublesI [of 0 0] by simp

lemma ulp_min_in_doubles: "ulp_min \<in> doubles" "- ulp_min \<in> doubles"
  using doublesI [of 1 0] doublesI [of "-1" 0] by simp_all

lemma dyadic_in_doubles:
  assumes "\<bar>m\<bar> < 2 ^ 53" and "k \<le> 1074"
  shows "of_int m / 2 ^ k \<in> doubles"
proof -
  have "(2::real) ^ 1074 = 2 ^ (1074 - k) * 2 ^ k"
    using assms(2) by (simp flip: power_add)
  then have "of_int m * 2 ^ (1074 - k) * ulp_min = of_int m / 2 ^ k"
    by (simp add: ulp_min_def field_simps)
  moreover have "of_int m * 2 ^ (1074 - k) * ulp_min \<in> doubles"
    using assms(1) by (intro doublesI) simp_all
  ultimately show ?thesis by simp
qed

lemma doubles_multiple:
  assumes "x \<in> doubles"
  shows "\<exists>k::int. x = of_int k * ulp_min"
proof -
  from assms obtain m :: int and n :: nat where "x = of_int m * 2 ^ n * ulp_min"
    unfolding doubles_def by blast
  then have "x = of_int (m * 2 ^ n) * ulp_min" by simp
  then show ?thesis by blast
qed

lemma doubles_le_max:
  assumes "x \<in> doubles"
  shows "\<bar>x\<bar> \<le> max_double"
proof -
  from assms obtain m :: int and n :: nat where
    x: "x = of_int m * 2 ^ n * ulp_min" and m: "\<bar>m\<bar> < 2 ^ 53" and n: "n \<le> 2045"
    unfolding doubles_def by blast
  from m have "\<bar>m\<bar> \<le> 2 ^ 53 - 1" by simp
  then have "of_int \<bar>m\<bar> \<le> (of_int (2 ^ 53 - 1) :: real)" by (simp only: of_int_le_iff)
  then have m': "\<bar>of_int m :: real\<bar> \<le> 2 ^ 53 - 1" by simp
  from n have p: "(2::real) ^ n \<le> 2 ^ 2045" by (intro power_increasing) simp_all
  have "\<bar>x\<bar> = \<bar>of_int m :: real\<bar> * 2 ^ n * ulp_min"
    using ulp_min_pos by (simp add: x abs_mult)
  also have "\<dots> \<le> (2 ^ 53 - 1) * 2 ^ 2045 * ulp_min"
    using m' p ulp_min_pos by (intro mult_right_mono mult_mono) simp_all
  finally show ?thesis by (simp only: max_double_def)
qed

lemma max_double_pos: "0 < max_double"
  using ulp_min_pos by (simp add: max_double_def)

lemma finite_doubles: "finite doubles"
proof -
  have "doubles \<subseteq> (\<lambda>(m, n). of_int m * 2 ^ n * ulp_min) ` ({- (2 ^ 53) .. 2 ^ 53} \<times> {.. 2045})"
    unfolding doubles_def by force
  moreover have "finite ((\<lambda>(m::int, n::nat). of_int m * 2 ^ n * ulp_min :: real)
                   ` ({- (2 ^ 53) .. 2 ^ 53} \<times> {.. 2045}))"
    by (intro finite_imageI finite_cartesian_product) simp_all
  ultimately show ?thesis by (rule finite_subset)
qed

lemma rounds_exact:
  assumes "rounds fl x" and "x \<in> doubles"
  shows "fl x = D_Fin x"
proof (cases "fl x")
  case D_NaN
  with assms(1) show ?thesis by (simp add: rounds_def)
next
  case (D_Inf s)
  with assms(1) have "max_double < \<bar>x\<bar>" by (simp add: rounds_def)
  with doubles_le_max [OF assms(2)] show ?thesis by simp
next
  case (D_Fin d)
  with assms(1) have "\<forall>d' \<in> doubles. \<bar>d - x\<bar> \<le> \<bar>d' - x\<bar>" by (simp add: rounds_def)
  with assms(2) have "\<bar>d - x\<bar> \<le> \<bar>x - x\<bar>" by blast
  then have "d = x" by simp
  with D_Fin show ?thesis by simp
qed

lemma rounds_nonneg:
  assumes "rounds fl x" and "0 \<le> x"
  shows "(\<exists>d. fl x = D_Fin d \<and> 0 \<le> d \<and> d \<in> doubles) \<or> fl x = D_Inf True"
proof (cases "fl x")
  case D_NaN
  with assms(1) show ?thesis by (simp add: rounds_def)
next
  case (D_Inf s)
  with assms(1) have "max_double < \<bar>x\<bar>" and "s = (0 < x)" by (simp_all add: rounds_def)
  with assms(2) max_double_pos have "s" by simp
  with D_Inf show ?thesis by simp
next
  case (D_Fin d)
  with assms(1) have d: "d \<in> doubles" and near: "\<forall>d' \<in> doubles. \<bar>d - x\<bar> \<le> \<bar>d' - x\<bar>"
    by (simp_all add: rounds_def)
  from near zero_in_doubles have "\<bar>d - x\<bar> \<le> \<bar>0 - x\<bar>" by blast
  with assms(2) have "0 \<le> d" by simp
  with D_Fin d show ?thesis by simp
qed

lemma rounds_diff_pos:
  assumes r: "rounds fl (u - a)" and u: "u \<in> doubles" and a: "a \<in> doubles"
    and a0: "0 \<le> a" and lt: "a < u"
  shows "\<exists>e. fl (u - a) = D_Fin e \<and> 0 < e"
proof -
  from doubles_multiple [OF u] obtain ku :: int where ku: "u = of_int ku * ulp_min" ..
  from doubles_multiple [OF a] obtain ka :: int where ka: "a = of_int ka * ulp_min" ..
  have diff: "u - a = of_int (ku - ka) * ulp_min" by (simp add: ku ka algebra_simps)
  from lt have "0 < u - a" by simp
  then have "0 < of_int (ku - ka) * ulp_min" by (simp only: diff)
  with ulp_min_pos have "0 < (of_int (ku - ka) :: real)" by (simp add: zero_less_mult_iff)
  then have "1 \<le> ku - ka" by simp
  then have "(1::real) \<le> of_int (ku - ka)" by (simp only: of_int_1_le_iff)
  with ulp_min_pos have ge: "ulp_min \<le> u - a"
    unfolding diff by (simp add: mult_le_cancel_right1)
  from a0 lt doubles_le_max [OF u] have small: "\<bar>u - a\<bar> \<le> max_double" by simp
  show ?thesis
  proof (cases "fl (u - a)")
    case D_NaN
    with r show ?thesis by (simp add: rounds_def)
  next
    case (D_Inf s)
    with r small show ?thesis by (simp add: rounds_def)
  next
    case (D_Fin d)
    with r have "\<forall>d' \<in> doubles. \<bar>d - (u - a)\<bar> \<le> \<bar>d' - (u - a)\<bar>" by (simp add: rounds_def)
    with ulp_min_in_doubles(1) have "\<bar>d - (u - a)\<bar> \<le> \<bar>ulp_min - (u - a)\<bar>" by blast
    with ge ulp_min_pos have "0 < d" by simp
    with D_Fin show ?thesis by simp
  qed
qed

lemma rounds_diff_neg:
  assumes r: "rounds fl (u - a)" and u: "u \<in> doubles" and a: "a \<in> doubles"
    and u0: "0 \<le> u" and lt: "u < a"
  shows "\<exists>e. fl (u - a) = D_Fin e \<and> e < 0"
proof -
  from doubles_multiple [OF u] obtain ku :: int where ku: "u = of_int ku * ulp_min" ..
  from doubles_multiple [OF a] obtain ka :: int where ka: "a = of_int ka * ulp_min" ..
  have diff: "a - u = of_int (ka - ku) * ulp_min" by (simp add: ku ka algebra_simps)
  from lt have "0 < a - u" by simp
  then have "0 < of_int (ka - ku) * ulp_min" by (simp only: diff)
  with ulp_min_pos have "0 < (of_int (ka - ku) :: real)" by (simp add: zero_less_mult_iff)
  then have "1 \<le> ka - ku" by simp
  then have "(1::real) \<le> of_int (ka - ku)" by (simp only: of_int_1_le_iff)
  with ulp_min_pos have ge: "ulp_min \<le> a - u"
    unfolding diff by (simp add: mult_le_cancel_right1)
  from u0 lt doubles_le_max [OF a] have small: "\<bar>u - a\<bar> \<le> max_double" by simp
  show ?thesis
  proof (cases "fl (u - a)")
    case D_NaN
    with r show ?thesis by (simp add: rounds_def)
  next
    case (D_Inf s)
    with r small show ?thesis by (simp add: rounds_def)
  next
    case (D_Fin d)
    with r have "\<forall>d' \<in> doubles. \<bar>d - (u - a)\<bar> \<le> \<bar>d' - (u - a)\<bar>" by (simp add: rounds_def)
    with ulp_min_in_doubles(2) have "\<bar>d - (u - a)\<bar> \<le> \<bar>- ulp_min - (u - a)\<bar>" by blast
    with ge ulp_min_pos have "d < 0" by simp
    with D_Fin show ?thesis by simp
  qed
qed

lemma nearest_rounding_rounds: "rounds nearest_rounding x"
proof (cases "max_double < \<bar>x\<bar>")
  case True
  then show ?thesis by (simp add: rounds_def nearest_rounding_def)
next
  case False
  have ne: "doubles \<noteq> {}" using zero_in_doubles by blast
  have "arg_min_on (\<lambda>d. \<bar>d - x\<bar>) doubles \<in> doubles"
    using finite_doubles ne by (rule arg_min_if_finite(1))
  moreover have "\<forall>d' \<in> doubles. \<bar>arg_min_on (\<lambda>d. \<bar>d - x\<bar>) doubles - x\<bar> \<le> \<bar>d' - x\<bar>"
    using arg_min_least [OF finite_doubles ne, of _ "\<lambda>d. \<bar>d - x\<bar>"] by blast
  ultimately show ?thesis using False by (simp add: rounds_def nearest_rounding_def)
qed

lemma nearest_rounding_exact: "x \<in> doubles \<Longrightarrow> nearest_rounding x = D_Fin x"
  using nearest_rounding_rounds by (rule rounds_exact)

subsection \<open>The calculation\<close>

lemma Math_abs_gt0: "dbl_gt0 e \<Longrightarrow> Math_abs e = e"
  by (cases e) simp_all

lemma validateInputs_valid:
  assumes "dailyRate s = Some (D_Fin r)" and "allowedTimeDays s = Some (D_Fin a)"
    and "usedTimeDays s = Some (D_Fin u)" and "exchangeRate s = Some (D_Fin x)"
    and "0 \<le> r" and "0 \<le> a" and "0 \<le> u" and "0 < x"
  shows "validateInputs s = []"
  using assms by (simp add: validateInputs_def Number_of_def)

lemma calculateDemurrage_valid:
  assumes "dailyRate s = Some (D_Fin r)" and "allowedTimeDays s = Some (D_Fin a)"
    and "usedTimeDays s = Some (D_Fin u)" and "exchangeRate s = Some (D_Fin x)"
    and "0 \<le> r" and "0 \<le> a" and "0 \<le> u" and "0 < x"
  shows "calculationResult (calculateDemurrage fl s) = Some
           \<lparr>type_res = (if dbl_gt0 (fl (u - a)) then Demurrage else Despatch),
            amount = parseFloat_toFixed fl 2 (dbl_mul fl (Math_abs (fl (u - a))) (D_Fin r)),
            currency = fromCurrency s,
            convertedAmount = Some (parseFloat_toFixed fl 2
              (dbl_mul fl (dbl_mul fl (Math_abs (fl (u - a))) (D_Fin r)) (D_Fin x))),
            convertedCurrency = Some (toCurrency s)\<rparr>"
proof -
  have v: "validateInputs s = []" using assms by (rule validateInputs_valid)
  show ?thesis
    using assms(1-4)
    by (simp add: calculateDemurrage_def Let_def v Number_of_def Math_abs_gt0)
qed

lemma excess_finite:
  assumes "\<forall>y. rounds fl y" and "u \<in> doubles" and "a \<in> doubles" and "0 \<le> a" and "0 \<le> u"
  shows "\<exists>e. fl (u - a) = D_Fin e \<and> (a < u \<longrightarrow> 0 < e) \<and> (u < a \<longrightarrow> e < 0)
              \<and> (u = a \<longrightarrow> e = 0)"
proof -
  from assms(1) have r: "rounds fl (u - a)" by blast
  consider "a < u" | "u < a" | "u = a" by linarith
  then show ?thesis
  proof cases
    case 1
    from rounds_diff_pos [OF r assms(2,3,4) 1] 1 show ?thesis by auto
  next
    case 2
    from rounds_diff_neg [OF r assms(2,3,5) 2] 2 show ?thesis by auto
  next
    case 3
    with r have "rounds fl 0" by simp
    from rounds_exact [OF this zero_in_doubles] 3 show ?thesis by simp
  qed
qed

lemma toFixed_real_ge0: "0 \<le> y \<Longrightarrow> 0 \<le> toFixed_real d y"
proof -
  assume y: "0 \<le> y"
  then have "0 \<le> y * 10 ^ d + 1 / 2" by simp
  then have "0 \<le> \<lfloor>y * 10 ^ d + 1 / 2\<rfloor>" by simp
  then have "0 \<le> (of_int \<lfloor>y * 10 ^ d + 1 / 2\<rfloor> :: real) / 10 ^ d" by simp
  with y show ?thesis by (simp add: toFixed_real_def)
qed

lemma product_rounded:
  assumes "\<forall>y. rounds fl y" and "0 \<le> e" and "0 \<le> r"
  shows "(\<exists>p. fl (e * r) = D_Fin p \<and> 0 \<le> p \<and> p \<in> doubles) \<or> fl (e * r) = D_Inf True"
proof -
  from assms(1) have "rounds fl (e * r)" by blast
  moreover from assms(2,3) have "0 \<le> e * r" by simp
  ultimately show ?thesis by (rule rounds_nonneg)
qed

lemma toFixed_ge0:
  assumes "\<forall>y. rounds fl y" and "dbl_ge0 c"
  shows "dbl_ge0 (parseFloat_toFixed fl d c)"
proof (cases c)
  case D_NaN
  with assms(2) show ?thesis by simp
next
  case (D_Inf s)
  with assms(2) show ?thesis by simp
next
  case (D_Fin p)
  with assms(2) have p: "0 \<le> p" by simp
  show ?thesis
  proof (cases "10 ^ 21 \<le> \<bar>p\<bar>")
    case True
    with D_Fin p show ?thesis by simp
  next
    case False
    from assms(1) have "rounds fl (toFixed_real d p)" by blast
    from rounds_nonneg [OF this toFixed_real_ge0 [OF p]]
    have "dbl_ge0 (fl (toFixed_real d p))" by auto
    with D_Fin False show ?thesis by simp
  qed
qed

text \<open>
  Claim C4, amended. For every valid calculator input (finite doubles with
  dailyRate >= 0, allowedTime >= 0, usedTime >= 0, exchangeRate > 0), the arithmetic
  being that of doubles: if usedTime > allowedTime the result type is Demurrage and
  the amount is the product of the difference usedTime - allowedTime and dailyRate,
  each rounded to a double, written with two decimals by \<open>toFixed(2)\<close> and read back; if
  usedTime < allowedTime the result type is Despatch and the amount is obtained in the
  same way from the magnitude of the difference; if usedTime = allowedTime the result
  type is Despatch with amount 0. The amount is never negative and never \<open>NaN\<close>; it
  can be 0 for a Demurrage.
\<close>

theorem calculateDemurrage_sign_law:
  assumes "\<forall>y. rounds fl y"
    and "dailyRate s = Some (D_Fin r)" and "allowedTimeDays s = Some (D_Fin a)"
    and "usedTimeDays s = Some (D_Fin u)" and "exchangeRate s = Some (D_Fin x)"
    and "0 \<le> r" and "0 \<le> a" and "0 \<le> u" and "0 < x"
    and "a \<in> doubles" and "u \<in> doubles"
  shows "\<exists>res. calculationResult (calculateDemurrage fl s) = Some res
     \<and> dbl_ge0 (amount res)
     \<and> (a < u \<longrightarrow> type_res res = Demurrage
           \<and> amount res = parseFloat_toFixed fl 2 (dbl_mul fl (fl (u - a)) (D_Fin r)))
     \<and> (u < a \<longrightarrow> type_res res = Despatch
           \<and> amount res
               = parseFloat_toFixed fl 2 (dbl_mul fl (Math_abs (fl (u - a))) (D_Fin r)))
     \<and> (u = a \<longrightarrow> type_res res = Despatch \<and> amount res = D_Fin 0)"
proof -
  note res = calculateDemurrage_valid [OF assms(2-9), of fl]
  from excess_finite [OF assms(1) assms(11) assms(10) assms(7) assms(8)]
  obtain e where e: "fl (u - a) = D_Fin e" "a < u \<longrightarrow> 0 < e" "u < a \<longrightarrow> e < 0"
    "u = a \<longrightarrow> e = 0"
    by blast
  have abs: "Math_abs (fl (u - a)) = D_Fin \<bar>e\<bar>" by (simp add: e(1))
  have "dbl_ge0 (fl (\<bar>e\<bar> * r))"
    using product_rounded [OF assms(1) abs_ge_zero assms(6), of e] by auto
  then have ge0: "dbl_ge0 (parseFloat_toFixed fl 2 (dbl_mul fl (Math_abs (fl (u - a))) (D_Fin r)))"
    unfolding abs using assms(1) by (simp add: toFixed_ge0)
  have dem: "dbl_gt0 (fl (u - a))
      \<and> dbl_mul fl (Math_abs (fl (u - a))) (D_Fin r) = dbl_mul fl (fl (u - a)) (D_Fin r)"
    if "a < u"
    using that e by simp
  have des: "\<not> dbl_gt0 (fl (u - a))" if "u < a"
    using that e by simp
  have zero: "\<not> dbl_gt0 (fl (u - a))
      \<and> parseFloat_toFixed fl 2 (dbl_mul fl (Math_abs (fl (u - a))) (D_Fin r)) = D_Fin 0"
    if "u = a"
  proof -
    from that e have e0: "e = 0" by simp
    from assms(1) have "rounds fl 0" by blast
    from rounds_exact [OF this zero_in_doubles] have "fl 0 = D_Fin 0" .
    then show ?thesis by (simp add: e(1) e0 toFixed_real_def)
  qed
  from res ge0 dem des zero show ?thesis by auto
qed

text \<open>On a double the rounding returns that double; the examples use nothing else of it.\<close>

lemma nearest_examples:
  "nearest_rounding 0 = D_Fin 0"
  "nearest_rounding 1 = D_Fin 1"
  "nearest_rounding (3 / 2) = D_Fin (3 / 2)"
  "nearest_rounding (257 / 256) = D_Fin (257 / 256)"
  "nearest_rounding 7500 = D_Fin 7500"
  "nearest_rounding 15000 = D_Fin 15000"
  "nearest_rounding 30000 = D_Fin 30000"
  using nearest_rounding_exact [OF dyadic_in_doubles [of 0 0]]
    nearest_rounding_exact [OF dyadic_in_doubles [of 1 0]]
    nearest_rounding_exact [OF dyadic_in_doubles [of 3 1]]
    nearest_rounding_exact [OF dyadic_in_doubles [of 257 8]]
    nearest_rounding_exact [OF dyadic_in_doubles [of 7500 0]]
    nearest_rounding_exact [OF dyadic_in_doubles [of 15000 0]]
    nearest_rounding_exact [OF dyadic_in_doubles [of 30000 0]]
  by simp_all

lemma sample_inputs_doubles: "(2::real) \<in> doubles" "(7 / 2 :: real) \<in> doubles"
  using dyadic_in_doubles [of 2 0] dyadic_in_doubles [of 7 1] by simp_all

theorem calculateDemurrage_sign_law_witness:
  "calculationResult
     (calculateDemurrage nearest_rounding (sample_calculator\<lparr>exchangeRate := Some (D_Fin 1)\<rparr>))
     = Some \<lparr>type_res = Demurrage, amount = D_Fin 15000, currency = ''USD'',
             convertedAmount = Some (D_Fin 15000), convertedCurrency = Some ''USD''\<rparr>"
proof -
  let ?s = "sample_calculator\<lparr>exchangeRate := Some (D_Fin 1)\<rparr>"
  have r: "\<forall>y. rounds nearest_rounding y" by (simp add: nearest_rounding_rounds)
  have h: "dailyRate ?s = Some (D_Fin 10000)" "allowedTimeDays ?s = Some (D_Fin 2)"
    "usedTimeDays ?s = Some (D_Fin (7 / 2))" "exchangeRate ?s = Some (D_Fin 1)"
    "(0::real) \<le> 10000" "(0::real) \<le> 2" "(0::real) \<le> 7 / 2" "(0::real) < 1"
    by (simp_all add: sample_calculator_def)
  from calculateDemurrage_sign_law [OF r h sample_inputs_doubles]
  obtain res where res: "calculationResult (calculateDemurrage nearest_rounding ?s) = Some res"
    "type_res res = Demurrage"
    "amount res = parseFloat_toFixed nearest_rounding 2
       (dbl_mul nearest_rounding (nearest_rounding (7 / 2 - 2)) (D_Fin 10000))"
    by auto
  have "calculationResult (calculateDemurrage nearest_rounding ?s)
     = Some \<lparr>type_res = Demurrage, amount = D_Fin 15000, currency = ''USD'',
             convertedAmount = Some (D_Fin 15000), convertedCurrency = Some ''USD''\<rparr>"
    by (simp add: calculateDemurrage_def validateInputs_def Number_of_def Let_def
        sample_calculator_def toFixed_real_def nearest_examples)
  with res show ?thesis by simp
qed

text \<open>
  Claim C4 as stated fails: a daily rate of 0 is valid, and with usedTime 3.5 and
  allowedTime 2 the result is Demurrage with amount 0, which is not strictly positive;
  and with a daily rate of 1, usedTime 1.00390625 (a double) and allowedTime 0 the
  amount is 1, not 1.00390625. Every operation of these two calculations has a double
  as its exact result, so that every rounding to a nearest double gives these values.
\<close>

theorem calculateDemurrage_zero_rate:
  "validateInputs (sample_calculator\<lparr>dailyRate := Some (D_Fin 0), exchangeRate := Some (D_Fin 1)\<rparr>)
     = []
   \<and> calculationResult (calculateDemurrage nearest_rounding
        (sample_calculator\<lparr>dailyRate := Some (D_Fin 0), exchangeRate := Some (D_Fin 1)\<rparr>))
     = Some \<lparr>type_res = Demurrage, amount = D_Fin 0, currency = ''USD'',
             convertedAmount = Some (D_Fin 0), convertedCurrency = Some ''USD''\<rparr>
   \<and> calculationResult (calculateDemurrage nearest_rounding
        (sample_calculator\<lparr>dailyRate := Some (D_Fin 1), allowedTimeDays := Some (D_Fin 0),
           usedTimeDays := Some (D_Fin (257 / 256)), exchangeRate := Some (D_Fin 1)\<rparr>))
     = Some \<lparr>type_res = Demurrage, amount = D_Fin 1, currency = ''USD'',
             convertedAmount = Some (D_Fin 1), convertedCurrency = Some ''USD''\<rparr>"
  by (simp add: calculateDemurrage_def validateInputs_def Number_of_def Let_def
      sample_calculator_def toFixed_real_def nearest_examples)

subsection \<open>The exchange rate for identical currencies\<close>

lemma times_one_exact:
  assumes "\<forall>y. rounds fl y"
    and "(\<exists>p. c = D_Fin p \<and> 0 \<le> p \<and> p \<in> doubles) \<or> c = D_Inf True"
  shows "dbl_mul fl c (D_Fin 1) = c"
proof -
  from assms(2) consider p where "c = D_Fin p" "p \<in> doubles" | "c = D_Inf True" by blast
  then show ?thesis
  proof cases
    case 1
    from assms(1) have "rounds fl p" by blast
    from rounds_exact [OF this 1(2)] 1(1) show ?thesis by simp
  next
    case 2
    then show ?thesis by simp
  qed
qed

text \<open>
  Claim C2, amended. If fromCurrency equals toCurrency, the exchange rate that
  \<open>fetchExchangeRate\<close> puts into the state is exactly 1, and for valid inputs a
  calculation on that state gives a convertedAmount equal to the amount.
  \<open>calculateDemurrage\<close> itself does not compare the currencies: for valid inputs and
  whatever positive rate the state holds, fetched or typed in by the user,
  convertedAmount is the product, in double arithmetic, of the amount before its
  rounding to two decimals and that rate, written with two decimals by \<open>toFixed(2)\<close>
  and read back.
\<close>

theorem same_currency_rate:
  "(fromCurrency s = toCurrency s \<longrightarrow> exchangeRate (fetchExchangeRate fl s) = Some (D_Fin 1))
   \<and> (dailyRate s = Some (D_Fin r) \<and> allowedTimeDays s = Some (D_Fin a)
        \<and> usedTimeDays s = Some (D_Fin u) \<and> 0 \<le> r \<and> 0 \<le> a \<and> 0 \<le> u \<longrightarrow>
      ((\<forall>y. rounds fl y) \<and> a \<in> doubles \<and> u \<in> doubles
          \<and> fromCurrency s = toCurrency s \<longrightarrow>
         (\<exists>res. calculationResult (calculateDemurrage fl (fetchExchangeRate fl s)) = Some res
            \<and> convertedAmount res = Some (amount res)))
      \<and> (0 < x \<longrightarrow>
         (\<exists>res. calculationResult (calculateDemurrage fl (s\<lparr>exchangeRate := Some (D_Fin x)\<rparr>))
                  = Some res
            \<and> amount res
                = parseFloat_toFixed fl 2 (dbl_mul fl (Math_abs (fl (u - a))) (D_Fin r))
            \<and> convertedAmount res
                = Some (parseFloat_toFixed fl 2
                    (dbl_mul fl (dbl_mul fl (Math_abs (fl (u - a))) (D_Fin r)) (D_Fin x))))))"
proof (intro conjI impI)
  assume "fromCurrency s = toCurrency s"
  then show "exchangeRate (fetchExchangeRate fl s) = Some (D_Fin 1)"
    by (simp add: fetchExchangeRate_def)
next
  assume v: "dailyRate s = Some (D_Fin r) \<and> allowedTimeDays s = Some (D_Fin a)
        \<and> usedTimeDays s = Some (D_Fin u) \<and> 0 \<le> r \<and> 0 \<le> a \<and> 0 \<le> u"
    and h: "(\<forall>y. rounds fl y) \<and> a \<in> doubles \<and> u \<in> doubles
          \<and> fromCurrency s = toCurrency s"
  let ?s = "fetchExchangeRate fl s"
  from h have f: "?s = s\<lparr>exchangeRate := Some (D_Fin 1)\<rparr>"
    by (simp add: fetchExchangeRate_def)
  from h have r: "\<forall>y. rounds fl y" by blast
  have res: "calculationResult (calculateDemurrage fl ?s) = Some
           \<lparr>type_res = (if dbl_gt0 (fl (u - a)) then Demurrage else Despatch),
            amount = parseFloat_toFixed fl 2 (dbl_mul fl (Math_abs (fl (u - a))) (D_Fin r)),
            currency = fromCurrency ?s,
            convertedAmount = Some (parseFloat_toFixed fl 2
              (dbl_mul fl (dbl_mul fl (Math_abs (fl (u - a))) (D_Fin r)) (D_Fin 1))),
            convertedCurrency = Some (toCurrency ?s)\<rparr>"
    using v by (intro calculateDemurrage_valid) (simp_all add: f)
  from v h excess_finite [OF r, of u a] obtain e where e: "fl (u - a) = D_Fin e" by blast
  have "dbl_mul fl (Math_abs (fl (u - a))) (D_Fin r) = fl (\<bar>e\<bar> * r)" by (simp add: e)
  moreover from v have "0 \<le> r" by blast
  ultimately have "dbl_mul fl (dbl_mul fl (Math_abs (fl (u - a))) (D_Fin r)) (D_Fin 1)
      = dbl_mul fl (Math_abs (fl (u - a))) (D_Fin r)"
    using times_one_exact [OF r product_rounded [OF r abs_ge_zero, of r e]] by simp
  with res show "\<exists>res. calculationResult (calculateDemurrage fl ?s) = Some res
            \<and> convertedAmount res = Some (amount res)"
    by simp
next
  assume v: "dailyRate s = Some (D_Fin r) \<and> allowedTimeDays s = Some (D_Fin a)
        \<and> usedTimeDays s = Some (D_Fin u) \<and> 0 \<le> r \<and> 0 \<le> a \<and> 0 \<le> u"
    and x: "0 < x"
  let ?s = "s\<lparr>exchangeRate := Some (D_Fin x)\<rparr>"
  have "calculationResult (calculateDemurrage fl ?s) = Some
           \<lparr>type_res = (if dbl_gt0 (fl (u - a)) then Demurrage else Despatch),
            amount = parseFloat_toFixed fl 2 (dbl_mul fl (Math_abs (fl (u - a))) (D_Fin r)),
            currency = fromCurrency ?s,
            convertedAmount = Some (parseFloat_toFixed fl 2
              (dbl_mul fl (dbl_mul fl (Math_abs (fl (u - a))) (D_Fin r)) (D_Fin x))),
            convertedCurrency = Some (toCurrency ?s)\<rparr>"
    using v x by (intro calculateDemurrage_valid) simp_all
  then show "\<exists>res. calculationResult (calculateDemurrage fl ?s) = Some res
            \<and> amount res
                = parseFloat_toFixed fl 2 (dbl_mul fl (Math_abs (fl (u - a))) (D_Fin r))
            \<and> convertedAmount res
                = Some (parseFloat_toFixed fl 2
                    (dbl_mul fl (dbl_mul fl (Math_abs (fl (u - a))) (D_Fin r)) (D_Fin x)))"
    by simp
qed

theorem same_currency_rate_witness:
  "fromCurrency sample_calculator = toCurrency sample_calculator
   \<and> exchangeRate (fetchExchangeRate nearest_rounding sample_calculator) = Some (D_Fin 1)
   \<and> (\<exists>res. calculationResult
                (calculateDemurrage nearest_rounding
                   (fetchExchangeRate nearest_rounding sample_calculator)) = Some res
         \<and> amount res = D_Fin 15000 \<and> convertedAmount res = Some (amount res))
   \<and> (\<exists>res. calculationResult
                (calculateDemurrage nearest_rounding
                   (sample_calculator\<lparr>exchangeRate := Some (D_Fin (1 / 2))\<rparr>)) = Some res
         \<and> amount res = D_Fin 15000 \<and> convertedAmount res = Some (D_Fin 7500))"
proof -
  have same: "fromCurrency sample_calculator = toCurrency sample_calculator"
    by (simp add: sample_calculator_def)
  have r: "\<forall>y. rounds nearest_rounding y" by (simp add: nearest_rounding_rounds)
  have v: "dailyRate sample_calculator = Some (D_Fin 10000)
        \<and> allowedTimeDays sample_calculator = Some (D_Fin 2)
        \<and> usedTimeDays sample_calculator = Some (D_Fin (7 / 2))
        \<and> (0::real) \<le> 10000 \<and> (0::real) \<le> 2 \<and> (0::real) \<le> 7 / 2"
    by (simp add: sample_calculator_def)
  have x: "(0::real) < 1 / 2" by simp
  have a: "parseFloat_toFixed nearest_rounding 2
             (dbl_mul nearest_rounding (Math_abs (nearest_rounding (7 / 2 - 2))) (D_Fin 10000))
           = D_Fin 15000"
    by (simp add: nearest_examples toFixed_real_def)
  have c: "parseFloat_toFixed nearest_rounding 2
             (dbl_mul nearest_rounding
               (dbl_mul nearest_rounding (Math_abs (nearest_rounding (7 / 2 - 2))) (D_Fin 10000))
               (D_Fin (1 / 2)))
           = D_Fin 7500"
    by (simp add: nearest_examples toFixed_real_def)
  note inst = same_currency_rate [of sample_calculator nearest_rounding 10000 2 "7 / 2" "1 / 2"]
  from inst same have one:
    "exchangeRate (fetchExchangeRate nearest_rounding sample_calculator) = Some (D_Fin 1)"
    by blast
  from inst v r same sample_inputs_doubles obtain res1 where res1:
    "calculationResult
       (calculateDemurrage nearest_rounding
          (fetchExchangeRate nearest_rounding sample_calculator)) = Some res1"
    "convertedAmount res1 = Some (amount res1)"
    by blast
  have "calculationResult
       (calculateDemurrage nearest_rounding
          (fetchExchangeRate nearest_rounding sample_calculator))
     = Some \<lparr>type_res = Demurrage, amount = D_Fin 15000, currency = ''USD'',
             convertedAmount = Some (D_Fin 15000), convertedCurrency = Some ''USD''\<rparr>"
    by (simp add: calculateDemurrage_def validateInputs_def Number_of_def Let_def
        fetchExchangeRate_def sample_calculator_def toFixed_real_def nearest_examples)
  with res1(1) have "res1 = \<lparr>type_res = Demurrage, amount = D_Fin 15000, currency = ''USD'',
             convertedAmount = Some (D_Fin 15000), convertedCurrency = Some ''USD''\<rparr>"
    by simp
  then have am1: "amount res1 = D_Fin 15000" by simp
  from inst v x obtain res2 where res2:
    "calculationResult
       (calculateDemurrage nearest_rounding
          (sample_calculator\<lparr>exchangeRate := Some (D_Fin (1 / 2))\<rparr>)) = Some res2"
    "amount res2 = parseFloat_toFixed nearest_rounding 2
       (dbl_mul nearest_rounding (Math_abs (nearest_rounding (7 / 2 - 2))) (D_Fin 10000))"
    "convertedAmount res2 = Some (parseFloat_toFixed nearest_rounding 2
       (dbl_mul nearest_rounding
         (dbl_mul nearest_rounding (Math_abs (nearest_rounding (7 / 2 - 2))) (D_Fin 10000))
         (D_Fin (1 / 2))))"
    by blast
  from same one res1 am1 res2 a c show ?thesis by auto
qed

text \<open>
  Claim C2 as stated fails: with both currencies USD the fetched rate is 1; the user
  then types 2 into the exchange-rate input, and the calculation gives amount 15000 and
  convertedAmount 30000.
\<close>

theorem same_currency_user_rate:
  "fromCurrency (handleInputChange sample_toNumber ''exchangeRate'' ''2''
       (fetchExchangeRate nearest_rounding sample_calculator))
     = toCurrency (handleInputChange sample_toNumber ''exchangeRate'' ''2''
       (fetchExchangeRate nearest_rounding sample_calculator))
   \<and> exchangeRate (handleInputChange sample_toNumber ''exchangeRate'' ''2''
       (fetchExchangeRate nearest_rounding sample_calculator)) = Some (D_Fin 2)
   \<and> calculationResult (calculateDemurrage nearest_rounding
       (handleInputChange sample_toNumber ''exchangeRate'' ''2''
         (fetchExchangeRate nearest_rounding sample_calculator)))
     = Some \<lparr>type_res = Demurrage, amount = D_Fin 15000, currency = ''USD'',
             convertedAmount = Some (D_Fin 30000), convertedCurrency = Some ''USD''\<rparr>"
  by (simp add: calculateDemurrage_def validateInputs_def Number_of_def Let_def
      handleInputChange_def fetchExchangeRate_def sample_toNumber_def
      sample_calculator_def toFixed_real_def nearest_examples)

end
